theory Spec2Isabelle
  imports
    Complex_Main
    "HOL-Library.Char_ord"
    "HOL-Library.List_Lexorder"
    "HOL-Library.AList"
    "HOL-Library.Sublist"
    "HOL-Library.Log_Nat"
begin

section \<open>Python values\<close>

text \<open>
  The application is one Python script, \<^verbatim>\<open>app.py\<close>. Its logic is embedded here as HOL
  functions over explicit Python values. Strings are compared the way Python compares
  them: lexicographically by code point (\<^theory_text>\<open>Char_ord\<close> and \<^theory_text>\<open>List_Lexorder\<close>).
\<close>

text \<open>The exceptions the script can meet; a raise is a result \<open>Inl\<close>.\<close>

datatype pyerror =
  ValueError | OverflowError | TypeError | KeyError | AttributeError
  | RequestException | JSONDecodeError

subsection \<open>Decimal rendering of integers: \<^verbatim>\<open>str(n)\<close>\<close>

definition digit_char :: "nat \<Rightarrow> char" where
  "digit_char d = ''0123456789'' ! (d mod 10)"

fun dec_digits :: "nat \<Rightarrow> string" where
  "dec_digits n = (if n < 10 then [digit_char n] else dec_digits (n div 10) @ [digit_char (n mod 10)])"

declare dec_digits.simps [simp del]

definition str_int :: "int \<Rightarrow> string" where
  "str_int i = (if i < 0 then ''-'' @ dec_digits (nat (- i)) else dec_digits (nat i))"

section \<open>Option catalogs\<close>

text \<open>
  An entry of a raw option list is a string, the float \<^verbatim>\<open>np.nan\<close>, \<^verbatim>\<open>None\<close> or an
  integer. \<^verbatim>\<open>pd.isna\<close> holds of \<^verbatim>\<open>np.nan\<close> and of \<^verbatim>\<open>None\<close>. \<^verbatim>\<open>str\<close> leaves a string as it
  is and renders an integer in decimal; CPython (3.11, with its default
  \<^verbatim>\<open>sys.int_max_str_digits\<close> of 4300) refuses an integer of more than 4300 decimal digits:
  \<^verbatim>\<open>str\<close> raises \<^verbatim>\<open>ValueError\<close>.
\<close>

datatype raw_item = RStr string | RNan | RNone | RInt int

fun isna_raw :: "raw_item \<Rightarrow> bool" where
  "isna_raw RNan = True"
| "isna_raw RNone = True"
| "isna_raw (RStr s) = False"
| "isna_raw (RInt i) = False"

definition int_max_str_digits :: nat where
  "int_max_str_digits = 4300"

fun py_str :: "raw_item \<Rightarrow> pyerror + string" where
  "py_str (RStr s) = Inr s"
| "py_str (RInt i) =
     (if int_max_str_digits < length (dec_digits (nat \<bar>i\<bar>)) then Inl ValueError
      else Inr (str_int i))"
| "py_str RNan = Inr ''nan''"
| "py_str RNone = Inr ''None''"

text \<open>\<^verbatim>\<open>str(item)\<close> returns a string.\<close>

definition renders :: "raw_item \<Rightarrow> bool" where
  "renders item = (case py_str item of Inr s \<Rightarrow> True | Inl e \<Rightarrow> False)"

text \<open>
  \<^verbatim>\<open>
  def prepare_options(raw_list, nan_replacement="Unknown", sort=True):
      options_str = [nan_replacement if pd.isna(item) else str(item) for item in raw_list]
      if sort:
          unique_sorted_options = sorted(list(set(options_str)))
          return unique_sorted_options
      return list(set(options_str))
  \<close>
  The comprehension goes through the entries in order and stops at the first raise.

  \<^verbatim>\<open>list(set(xs))\<close> has one copy of every element, in an order that depends on the hash
  seed of the process. The order is a parameter of the model: a function that lists the
  elements. A function that does not list exactly the elements of its argument, each
  once, is replaced by one that does, so that every value of the parameter stands for an
  order Python may choose. \<^verbatim>\<open>sorted\<close> compares strings lexicographically by code point.
\<close>

fun options_str :: "raw_item list \<Rightarrow> string \<Rightarrow> pyerror + string list" where
  "options_str [] nan_replacement = Inr []"
| "options_str (item # raw_list) nan_replacement =
     (case (if isna_raw item then Inr nan_replacement else py_str item) of
        Inl e \<Rightarrow> Inl e
      | Inr s \<Rightarrow>
          (case options_str raw_list nan_replacement of
             Inl e \<Rightarrow> Inl e
           | Inr strs \<Rightarrow> Inr (s # strs)))"

type_synonym set_order = "string list \<Rightarrow> string list"

definition list_of_set :: "set_order \<Rightarrow> string list \<Rightarrow> string list" where
  "list_of_set order xs =
     (if distinct (order xs) \<and> set (order xs) = set xs then order xs else remdups xs)"

definition prepare_options ::
  "set_order \<Rightarrow> raw_item list \<Rightarrow> string \<Rightarrow> bool \<Rightarrow> pyerror + string list" where
  "prepare_options order raw_list nan_replacement sort_flag =
     (case options_str raw_list nan_replacement of
        Inl e \<Rightarrow> Inl e
      | Inr strs \<Rightarrow>
          if sort_flag then Inr (sort (list_of_set order strs))
          else Inr (list_of_set order strs))"

text \<open>
  The calls at module level. Each of them sorts, so its result does not depend on the
  order of the set, and on the lists of the script \<^verbatim>\<open>str\<close> does not raise; a call that
  raised would end the script.
\<close>

definition module_options :: "raw_item list \<Rightarrow> string \<Rightarrow> string list" where
  "module_options raw_list nan_replacement =
     (case prepare_options (\<lambda>xs. xs) raw_list nan_replacement True of
        Inr options \<Rightarrow> options
      | Inl e \<Rightarrow> [])"

definition body_type_opts_raw :: "raw_item list" where
  "body_type_opts_raw =
     [RStr ''Pickup Truck'', RStr ''Sedan'', RStr ''SUV / Crossover'', RStr ''Van'',
      RStr ''Hatchback'', RStr ''Coupe'', RStr ''Minivan'', RStr ''Convertible'',
      RStr ''Wagon'', RNan]"

definition engine_cylinders_opts_raw :: "raw_item list" where
  "engine_cylinders_opts_raw =
     [RStr ''V8'', RStr ''I4'', RStr ''V6 Hybrid'', RStr ''V6'', RStr ''V6 Flex Fuel Vehicle'',
      RStr ''I3'', RStr ''H4'', RStr ''V8 Flex Fuel Vehicle'', RNan,
      RStr ''I4 Flex Fuel Vehicle'', RStr ''I6 Diesel'', RStr ''I4 Hybrid'', RStr ''I6'',
      RStr ''I4 Diesel'', RStr ''V8 Biodiesel'', RStr ''V6 Biodiesel'', RStr ''V8 Diesel'',
      RStr ''V6 Diesel'', RStr ''I5'', RStr ''H6'', RStr ''V10'', RStr ''W12'', RStr ''V12'',
      RStr ''I4 Compressed Natural Gas'', RStr ''I2'', RStr ''V8 Hybrid'',
      RStr ''V8 Compressed Natural Gas'', RStr ''I5 Diesel'', RStr ''H4 Hybrid'',
      RStr ''I5 Biodiesel'', RStr ''W12 Flex Fuel Vehicle'', RStr ''R2'', RStr ''I6 Hybrid'',
      RStr ''V8 Propane'', RStr ''V6 Compressed Natural Gas'', RStr ''V10 Diesel'', RStr ''W8'',
      RStr ''I3 Hybrid'']"

definition engine_type_opts_raw :: "raw_item list" where
  "engine_type_opts_raw = engine_cylinders_opts_raw"

definition fuel_type_opts_raw :: "raw_item list" where
  "fuel_type_opts_raw =
     [RStr ''Gasoline'', RStr ''Hybrid'', RStr ''Flex Fuel Vehicle'', RNan, RStr ''Diesel'',
      RStr ''Electric'', RStr ''Biodiesel'', RStr ''Compressed Natural Gas'', RStr ''Propane'']"

definition listing_color_opts_raw :: "raw_item list" where
  "listing_color_opts_raw =
     [RStr ''SILVER'', RStr ''GRAY'', RStr ''WHITE'', RStr ''BLACK'', RStr ''BLUE'', RStr ''RED'',
      RStr ''UNKNOWN'', RStr ''GREEN'', RStr ''YELLOW'', RStr ''BROWN'', RStr ''GOLD'',
      RStr ''TEAL'', RStr ''ORANGE'', RStr ''PURPLE'', RStr ''PINK'']"

definition transmission_opts_raw :: "raw_item list" where
  "transmission_opts_raw = [RStr ''A'', RStr ''CVT'', RStr ''M'', RNan, RStr ''Dual Clutch'']"

definition wheel_system_opts_raw :: "raw_item list" where
  "wheel_system_opts_raw = [RStr ''4WD'', RStr ''FWD'', RStr ''AWD'', RNan, RStr ''RWD'', RStr ''4X2'']"

definition body_type_options :: "string list" where
  "body_type_options = module_options body_type_opts_raw ''Unknown''"

definition engine_cylinders_options :: "string list" where
  "engine_cylinders_options = module_options engine_cylinders_opts_raw ''Unknown''"

definition engine_type_options :: "string list" where
  "engine_type_options = module_options engine_type_opts_raw ''Unknown''"

definition fuel_type_options :: "string list" where
  "fuel_type_options = module_options fuel_type_opts_raw ''Unknown''"

definition listing_color_options :: "string list" where
  "listing_color_options = module_options listing_color_opts_raw ''UNKNOWN''"

definition wheel_system_options :: "string list" where
  "wheel_system_options = module_options wheel_system_opts_raw ''Unknown''"

section \<open>Transmission codes and display labels\<close>

text \<open>A Python dict keeps its entries in insertion order: an association list.\<close>

definition transmission_options_map :: "(string \<times> string) list" where
  "transmission_options_map =
     [(''A'', ''Automatic''), (''M'', ''Manual''), (''CVT'', ''CVT''),
      (''Dual Clutch'', ''Dual Clutch''), (''Unknown'', ''Unknown'')]"

text \<open>\<^verbatim>\<open>d.get(k, default)\<close>\<close>

definition dict_get :: "('k \<times> 'v) list \<Rightarrow> 'k \<Rightarrow> 'v \<Rightarrow> 'v" where
  "dict_get d k dflt = (case map_of d k of Some v \<Rightarrow> v | None \<Rightarrow> dflt)"

definition prepared_trans_opts :: "string list" where
  "prepared_trans_opts = module_options transmission_opts_raw ''Unknown''"

definition display_trans_opts :: "string list" where
  "display_trans_opts = map (\<lambda>opt. dict_get transmission_options_map opt opt) prepared_trans_opts"

text \<open>
  \<^verbatim>\<open>
  original_trans_value = selected_display_trans # Default if not in map
  for k, v in transmission_options_map.items():
      if v == selected_display_trans:
          original_trans_value = k
          break
  \<close>
  The loop runs over the entries in declaration order and stops at the first match.
\<close>

fun trans_items_loop :: "(string \<times> string) list \<Rightarrow> string \<Rightarrow> string \<Rightarrow> string" where
  "trans_items_loop [] selected_display_trans original = original"
| "trans_items_loop ((k, v) # items) selected_display_trans original =
     (if v = selected_display_trans then k
      else trans_items_loop items selected_display_trans original)"

definition original_trans_value :: "(string \<times> string) list \<Rightarrow> string \<Rightarrow> string" where
  "original_trans_value options_map selected_display_trans =
     trans_items_loop options_map selected_display_trans selected_display_trans"

section \<open>Floating point numbers\<close>

text \<open>
  A Python \<^verbatim>\<open>float\<close> (and a \<^verbatim>\<open>numpy.float64\<close>) is an IEEE 754 binary64 number: a finite
  value, which is a rational number, a negative zero, a NaN or an infinity. An operation
  returns the exact result rounded to the nearest representable value, ties to the even
  significand; the significand has 53 bits, the last place of a subnormal number is
  \<open>2 ^ - 1074\<close>, and a rounded magnitude of \<open>2 ^ 1024\<close> or more is an infinity.
\<close>

datatype pyfloat = Fin rat | NegZero | NaN | PosInf | NegInf

definition pow2 :: "int \<Rightarrow> rat" where
  "pow2 e = (if 0 \<le> e then 2 ^ nat e else 1 / 2 ^ nat (- e))"

definition round_half_even :: "rat \<Rightarrow> int" where
  "round_half_even x =
     (let f = \<lfloor>x\<rfloor>; d = x - of_int f
      in if d < 1 / 2 then f else if 1 / 2 < d then f + 1 else if even f then f else f + 1)"

text \<open>The binary exponent of a positive rational: \<open>2 ^ ilog2 x \<le> x < 2 ^ (ilog2 x + 1)\<close>.\<close>

definition ilog2 :: "rat \<Rightarrow> int" where
  "ilog2 x =
     (let (p, q) = quotient_of x; d = bitlen p - bitlen q
      in if pow2 d \<le> x then d else d - 1)"

definition signed_inf :: "bool \<Rightarrow> pyfloat" where
  "signed_inf neg = (if neg then NegInf else PosInf)"

definition signed_zero :: "bool \<Rightarrow> pyfloat" where
  "signed_zero neg = (if neg then NegZero else Fin 0)"

text \<open>Rounding a magnitude \<open>x \<ge> 0\<close> with a sign to binary64.\<close>

definition round_double :: "bool \<Rightarrow> rat \<Rightarrow> pyfloat" where
  "round_double neg x =
     (if x = 0 then signed_zero neg
      else let e = max (ilog2 x - 52) (- 1074);
               r = of_int (round_half_even (x / pow2 e)) * pow2 e
           in if pow2 1024 \<le> r then signed_inf neg
              else if r = 0 then signed_zero neg
              else Fin (if neg then - r else r))"

text \<open>A float literal such as \<^verbatim>\<open>0.85\<close> denotes the double nearest to the decimal.\<close>

definition float_of_rat :: "rat \<Rightarrow> pyfloat" where
  "float_of_rat x = round_double (x < 0) \<bar>x\<bar>"

text \<open>\<^verbatim>\<open>float(n)\<close> of a Python integer: an integer too large for a double is an error.\<close>

definition float_of_int :: "int \<Rightarrow> pyerror + pyfloat" where
  "float_of_int n =
     (case float_of_rat (of_int n) of
        PosInf \<Rightarrow> Inl OverflowError
      | NegInf \<Rightarrow> Inl OverflowError
      | f \<Rightarrow> Inr f)"

fun is_neg :: "pyfloat \<Rightarrow> bool" where
  "is_neg (Fin x) = (x < 0)"
| "is_neg NegZero = True"
| "is_neg NegInf = True"
| "is_neg PosInf = False"
| "is_neg NaN = False"

fun fval :: "pyfloat \<Rightarrow> rat option" where
  "fval (Fin x) = Some x"
| "fval NegZero = Some 0"
| "fval NaN = None"
| "fval PosInf = None"
| "fval NegInf = None"

text \<open>The product \<^verbatim>\<open>a * b\<close> of two floats.\<close>

definition fmul :: "pyfloat \<Rightarrow> pyfloat \<Rightarrow> pyfloat" where
  "fmul a b =
     (if a = NaN \<or> b = NaN then NaN
      else case (fval a, fval b) of
        (Some x, Some y) \<Rightarrow> round_double (is_neg a \<noteq> is_neg b) (\<bar>x\<bar> * \<bar>y\<bar>)
      | (None, Some y) \<Rightarrow> if y = 0 then NaN else signed_inf (is_neg a \<noteq> is_neg b)
      | (Some x, None) \<Rightarrow> if x = 0 then NaN else signed_inf (is_neg a \<noteq> is_neg b)
      | (None, None) \<Rightarrow> signed_inf (is_neg a \<noteq> is_neg b))"

text \<open>
  \<^verbatim>\<open>int(x)\<close> of a float truncates toward zero; it raises \<^verbatim>\<open>ValueError\<close> on a NaN and
  \<^verbatim>\<open>OverflowError\<close> on an infinity.
\<close>

fun py_int :: "pyfloat \<Rightarrow> pyerror + int" where
  "py_int (Fin x) = Inr (if 0 \<le> x then \<lfloor>x\<rfloor> else \<lceil>x\<rceil>)"
| "py_int NegZero = Inr 0"
| "py_int NaN = Inl ValueError"
| "py_int PosInf = Inl OverflowError"
| "py_int NegInf = Inl OverflowError"

section \<open>Number formatting\<close>

text \<open>
  The format specifier \<^verbatim>\<open>,\<close> puts a comma before every group of three digits of the
  integer part, counted from the right.
\<close>

fun group_thousands :: "string \<Rightarrow> string" where
  "group_thousands ds =
     (if length ds \<le> 3 then ds
      else group_thousands (take (length ds - 3) ds) @ '','' @ drop (length ds - 3) ds)"

declare group_thousands.simps [simp del]

text \<open>\<^verbatim>\<open>f"{i:,}"\<close> of an integer.\<close>

definition format_int_grouped :: "int \<Rightarrow> string" where
  "format_int_grouped i =
     (if i < 0 then ''-'' else []) @ group_thousands (dec_digits (nat \<bar>i\<bar>))"

text \<open>
  \<^verbatim>\<open>f"{x:,.2f}"\<close> of a float: the exact value rounded to two decimals, ties to even, the
  sign kept also when the rounded magnitude is zero.
\<close>

definition format_fixed2 :: "bool \<Rightarrow> rat \<Rightarrow> string" where
  "format_fixed2 neg x =
     (let c = nat (round_half_even (x * 100))
      in (if neg then ''-'' else []) @ group_thousands (dec_digits (c div 100)) @ ''.''
         @ [digit_char (c mod 100 div 10), digit_char (c mod 10)])"

fun format_float_grouped_2f :: "pyfloat \<Rightarrow> string" where
  "format_float_grouped_2f (Fin x) = format_fixed2 (x < 0) \<bar>x\<bar>"
| "format_float_grouped_2f NegZero = format_fixed2 True 0"
| "format_float_grouped_2f NaN = ''nan''"
| "format_float_grouped_2f PosInf = ''inf''"
| "format_float_grouped_2f NegInf = ''-inf''"


definition is_digit :: "char \<Rightarrow> bool" where
  "is_digit c = (c \<in> set ''0123456789'')"


definition digit_value :: "char \<Rightarrow> nat" where
  "digit_value c = of_char c - 48"

definition dec_value :: "string \<Rightarrow> nat" where
  "dec_value ds = foldl (\<lambda>acc c. 10 * acc + digit_value c) 0 ds"

definition remove_commas :: "string \<Rightarrow> string" where
  "remove_commas s = filter (\<lambda>c. c \<noteq> CHR '','') s"

section \<open>Exchange rates\<close>

text \<open>
  What \<^verbatim>\<open>response.json()\<close> returns: a JSON document as Python values. An object is a
  dict, in insertion order.
\<close>

datatype json =
  JNull | JBool bool | JInt int | JFloat pyfloat | JStr string
  | JArr "json list" | JObj "(string \<times> json) list"

text \<open>
  The outcome of the remote call: \<^verbatim>\<open>requests.get\<close> raises, \<^verbatim>\<open>response.json()\<close> raises,
  or a document is returned.
\<close>

datatype remote_outcome = NetworkFailure | ParseFailure | Response json

text \<open>\<^verbatim>\<open>data[key]\<close> with a string key: only a dict can be subscripted by a string.\<close>

fun subscript :: "json \<Rightarrow> string \<Rightarrow> pyerror + json" where
  "subscript (JObj d) key = (case map_of d key of Some v \<Rightarrow> Inr v | None \<Rightarrow> Inl KeyError)"
| "subscript JNull key = Inl TypeError"
| "subscript (JBool b) key = Inl TypeError"
| "subscript (JInt i) key = Inl TypeError"
| "subscript (JFloat f) key = Inl TypeError"
| "subscript (JStr s) key = Inl TypeError"
| "subscript (JArr xs) key = Inl TypeError"

text \<open>
  \<^verbatim>\<open>key in container\<close> with a string key: a key of a dict, an element of a list, a
  substring of a string; anything else is not a container.
\<close>

fun contains :: "json \<Rightarrow> string \<Rightarrow> pyerror + bool" where
  "contains (JObj d) key = Inr (map_of d key \<noteq> None)"
| "contains (JArr xs) key = Inr (JStr key \<in> set xs)"
| "contains (JStr s) key = Inr (sublist key s)"
| "contains JNull key = Inl TypeError"
| "contains (JBool b) key = Inl TypeError"
| "contains (JInt i) key = Inl TypeError"
| "contains (JFloat f) key = Inl TypeError"

text \<open>\<^verbatim>\<open>container[key] = v\<close> with a string key: only a dict takes it.\<close>

fun set_item :: "json \<Rightarrow> string \<Rightarrow> json \<Rightarrow> pyerror + json" where
  "set_item (JObj d) key v = Inr (JObj (AList.update key v d))"
| "set_item JNull key v = Inl TypeError"
| "set_item (JBool b) key v = Inl TypeError"
| "set_item (JInt i) key v = Inl TypeError"
| "set_item (JFloat f) key v = Inl TypeError"
| "set_item (JStr s) key v = Inl TypeError"
| "set_item (JArr xs) key v = Inl TypeError"

definition fallback_rates :: json where
  "fallback_rates =
     JObj [(''USD'', JFloat (float_of_rat 1)), (''EUR'', JFloat (float_of_rat (85 / 100))),
           (''GBP'', JFloat (float_of_rat (75 / 100))), (''JPY'', JFloat (float_of_rat 110)),
           (''CAD'', JFloat (float_of_rat (125 / 100))), (''AUD'', JFloat (float_of_rat (135 / 100))),
           (''EGP'', JInt 50)]"

text \<open>
  \<^verbatim>\<open>
  def get_exchange_rates():
      try:
          response = requests.get("https://open.er-api.com/v6/latest/USD")
          data = response.json()
          if data["result"] == "success":
              rates = data["rates"]
              if "EGP" not in rates:
                  rates["EGP"] = 50  # Approximate rate as of May 2024
              return rates
          else:
              return {"USD": 1.0, "EUR": 0.85, "GBP": 0.75, "JPY": 110.0, "CAD": 1.25, "AUD": 1.35, "EGP": 50}
      except:
          return {"USD": 1.0, "EUR": 0.85, "GBP": 0.75, "JPY": 110.0, "CAD": 1.25, "AUD": 1.35, "EGP": 50}
  \<close>
  \<open>get_exchange_rates_try\<close> is the body of the \<^verbatim>\<open>try\<close>, every raise a result \<open>Inl\<close>;
  \<open>get_exchange_rates\<close> adds the bare \<^verbatim>\<open>except\<close>. The one-hour cache around the
  function is not part of the model.
\<close>

definition get_exchange_rates_try :: "remote_outcome \<Rightarrow> pyerror + json" where
  "get_exchange_rates_try outcome =
     (case outcome of
        NetworkFailure \<Rightarrow> Inl RequestException
      | ParseFailure \<Rightarrow> Inl JSONDecodeError
      | Response data \<Rightarrow>
          (case subscript data ''result'' of
             Inl e \<Rightarrow> Inl e
           | Inr result \<Rightarrow>
               if result = JStr ''success'' then
                 (case subscript data ''rates'' of
                    Inl e \<Rightarrow> Inl e
                  | Inr rates \<Rightarrow>
                      (case contains rates ''EGP'' of
                         Inl e \<Rightarrow> Inl e
                       | Inr present \<Rightarrow>
                           if \<not> present then set_item rates ''EGP'' (JInt 50)
                           else Inr rates))
               else Inr fallback_rates))"

definition get_exchange_rates :: "remote_outcome \<Rightarrow> json" where
  "get_exchange_rates outcome =
     (case get_exchange_rates_try outcome of Inl e \<Rightarrow> fallback_rates | Inr rates \<Rightarrow> rates)"

text \<open>A rate that is a finite, positive number.\<close>

fun finite_positive :: "json \<Rightarrow> bool" where
  "finite_positive (JInt i) = (0 < i)"
| "finite_positive (JFloat (Fin x)) = (0 < x)"
| "finite_positive (JFloat NegZero) = False"
| "finite_positive (JFloat NaN) = False"
| "finite_positive (JFloat PosInf) = False"
| "finite_positive (JFloat NegInf) = False"
| "finite_positive JNull = False"
| "finite_positive (JBool b) = False"
| "finite_positive (JStr s) = False"
| "finite_positive (JArr xs) = False"
| "finite_positive (JObj d) = False"

text \<open>The response indicates success: \<^verbatim>\<open>data["result"] == "success"\<close> is evaluated and true.\<close>

definition indicates_success :: "json \<Rightarrow> bool" where
  "indicates_success data = (subscript data ''result'' = Inr (JStr ''success''))"

section \<open>Currency conversion\<close>

text \<open>
  \<^verbatim>\<open>
  exchange_rate = get_exchange_rates().get(selected_currency, 1.0)
  final_price = final_price_usd * exchange_rate
  if selected_currency == "JPY":
      formatted_price = f"{int(final_price):,}"
  else:
      formatted_price = f"{final_price:,.2f}"
  \<close>
  \<^verbatim>\<open>final_price_usd\<close> is a float. Only a dict has \<^verbatim>\<open>.get\<close>. The product with an integer
  rate converts the integer to a float first, a JSON boolean counts as 1 or 0, and a rate
  that is no number has no product with a float.
\<close>

definition exchange_rate :: "json \<Rightarrow> string \<Rightarrow> pyerror + json" where
  "exchange_rate rates selected_currency =
     (case rates of
        JObj d \<Rightarrow> Inr (dict_get d selected_currency (JFloat (Fin 1)))
      | _ \<Rightarrow> Inl AttributeError)"

fun times_rate :: "pyfloat \<Rightarrow> json \<Rightarrow> pyerror + pyfloat" where
  "times_rate p (JFloat r) = Inr (fmul p r)"
| "times_rate p (JInt i) = (case float_of_int i of Inl e \<Rightarrow> Inl e | Inr r \<Rightarrow> Inr (fmul p r))"
| "times_rate p (JBool b) = Inr (fmul p (Fin (if b then 1 else 0)))"
| "times_rate p JNull = Inl TypeError"
| "times_rate p (JStr s) = Inl TypeError"
| "times_rate p (JArr xs) = Inl TypeError"
| "times_rate p (JObj d) = Inl TypeError"

definition formatted_price :: "string \<Rightarrow> pyfloat \<Rightarrow> pyerror + string" where
  "formatted_price selected_currency final_price =
     (if selected_currency = ''JPY'' then
        (case py_int final_price of Inl e \<Rightarrow> Inl e | Inr i \<Rightarrow> Inr (format_int_grouped i))
      else Inr (format_float_grouped_2f final_price))"

definition convert :: "pyfloat \<Rightarrow> string \<Rightarrow> json \<Rightarrow> pyerror + (pyfloat \<times> string)" where
  "convert final_price_usd selected_currency rates =
     (case exchange_rate rates selected_currency of
        Inl e \<Rightarrow> Inl e
      | Inr rate \<Rightarrow>
          (case times_rate final_price_usd rate of
             Inl e \<Rightarrow> Inl e
           | Inr final_price \<Rightarrow>
               (case formatted_price selected_currency final_price of
                  Inl e \<Rightarrow> Inl e
                | Inr s \<Rightarrow> Inr (final_price, s))))"

section \<open>Record assembly\<close>

text \<open>
  A value collected from a widget: \<^verbatim>\<open>st.number_input\<close> returns an \<^verbatim>\<open>int\<close> or a \<^verbatim>\<open>float\<close>,
  \<^verbatim>\<open>st.selectbox\<close> a string, and a boolean flag is stored as the integer 0 or 1. The
  integers of a number input are bounded by Streamlit (at most \<open>2 ^ 53 - 1\<close> in magnitude),
  so pandas stores them as they are.
\<close>

datatype pyval = PInt int | PFloat pyfloat | PStr string

definition numerical_cols :: "string list" where
  "numerical_cols =
     [''back_legroom'', ''city_fuel_economy'', ''daysonmarket'', ''engine_displacement'',
      ''fleet'', ''frame_damaged'', ''franchise_dealer'', ''front_legroom'',
      ''fuel_tank_volume'', ''has_accidents'', ''height'', ''highway_fuel_economy'',
      ''horsepower'', ''isCab'', ''is_new'', ''length'', ''maximum_seating'',
      ''mileage'', ''owner_count'', ''salvage'', ''savings_amount'', ''seller_rating'',
      ''theft_title'', ''wheelbase'', ''width'', ''car_age'']"

definition categorical_widget_map :: "(string \<times> string list) list" where
  "categorical_widget_map =
     [(''body_type'', body_type_options),
      (''engine_cylinders'', engine_cylinders_options),
      (''engine_type'', engine_type_options),
      (''fuel_type'', fuel_type_options),
      (''listing_color'', listing_color_options),
      (''transmission'', display_trans_opts),
      (''wheel_system'', wheel_system_options)]"

definition boolean_flags :: "string list" where
  "boolean_flags =
     [''fleet'', ''frame_damaged'', ''franchise_dealer'', ''has_accidents'', ''isCab'', ''is_new'',
      ''salvage'', ''theft_title'']"

text \<open>
  \<^verbatim>\<open>pd.to_numeric(value, errors=...)\<close>: a number is returned as it is; a string is parsed.
  Which strings are numbers is decided by the parser of pandas, a parameter \<open>parse\<close> of
  the model; on a string that is no number the call raises \<^verbatim>\<open>ValueError\<close> under
  \<^verbatim>\<open>errors='raise'\<close> and returns NaN under \<^verbatim>\<open>errors='coerce'\<close>.
\<close>

datatype errors_mode = ErrorsRaise | ErrorsCoerce

type_synonym number_parser = "string \<Rightarrow> (int + pyfloat) option"

fun to_numeric :: "number_parser \<Rightarrow> errors_mode \<Rightarrow> pyval \<Rightarrow> pyerror + pyval" where
  "to_numeric parse errors (PInt i) = Inr (PInt i)"
| "to_numeric parse errors (PFloat f) = Inr (PFloat f)"
| "to_numeric parse errors (PStr s) =
     (case parse s of
        Some (Inl i) \<Rightarrow> Inr (PInt i)
      | Some (Inr f) \<Rightarrow> Inr (PFloat f)
      | None \<Rightarrow> (case errors of ErrorsCoerce \<Rightarrow> Inr (PFloat NaN) | ErrorsRaise \<Rightarrow> Inl ValueError))"

text \<open>
  A parser for closed examples: it reads a non-empty string of decimal digits as that
  integer and nothing else. Every string it rejects in the examples below (\<^verbatim>\<open>Unknown\<close>,
  \<^verbatim>\<open>abc\<close>) is no number to pandas either.
\<close>

definition parse_digits :: number_parser where
  "parse_digits s = (if s \<noteq> [] \<and> list_all is_digit s then Some (Inl (int (dec_value s))) else None)"

text \<open>\<^verbatim>\<open>f"Input for feature '{col_name}' was not collected. Using NaN or 'Unknown'."\<close>\<close>

definition not_collected_warning :: "string \<Rightarrow> string" where
  "not_collected_warning col_name =
     ''Input for feature '' @ [CHR 0x27] @ col_name @ [CHR 0x27]
       @ '' was not collected. Using NaN or '' @ [CHR 0x27] @ ''Unknown'' @ [CHR 0x27] @ ''.''"

text \<open>
  \<^verbatim>\<open>
  input_df_data_final = {}
  for col_name in original_feature_columns:
      if col_name in input_values_from_widgets:
          value = input_values_from_widgets[col_name]
          if col_name not in categorical_widget_map and col_name not in boolean_flags:
              input_df_data_final[col_name] = pd.to_numeric(value, errors='coerce')
          else:
              input_df_data_final[col_name] = value
      else:
          st.warning(f"Input for feature '{col_name}' was not collected. Using NaN or 'Unknown'.")
          if col_name not in categorical_widget_map and col_name not in boolean_flags:
              input_df_data_final[col_name] = np.nan
          else:
              input_df_data_final[col_name] = 'Unknown'
  \<close>
  The state of the loop is the dict under construction and the warnings shown so far.
  An assignment \<^verbatim>\<open>d[k] = v\<close> replaces the value of a key the dict has and otherwise adds
  the entry at the end (\<^const>\<open>AList.update\<close>).
\<close>

record assembly =
  input_df_data_final :: "(string \<times> pyval) list"
  st_warnings :: "string list"

definition is_numeric_col :: "string \<Rightarrow> bool" where
  "is_numeric_col col_name =
     (col_name \<notin> set (map fst categorical_widget_map) \<and> col_name \<notin> set boolean_flags)"

definition assemble_step ::
  "number_parser \<Rightarrow> (string \<times> pyval) list \<Rightarrow> assembly \<Rightarrow> string \<Rightarrow> pyerror + assembly" where
  "assemble_step parse input_values_from_widgets st col_name =
     (case map_of input_values_from_widgets col_name of
        Some v \<Rightarrow>
          if is_numeric_col col_name then
            (case to_numeric parse ErrorsCoerce v of
               Inl e \<Rightarrow> Inl e
             | Inr n \<Rightarrow>
                 Inr (st\<lparr>input_df_data_final := AList.update col_name n (input_df_data_final st)\<rparr>))
          else Inr (st\<lparr>input_df_data_final := AList.update col_name v (input_df_data_final st)\<rparr>)
      | None \<Rightarrow>
          Inr (st\<lparr>st_warnings := st_warnings st @ [not_collected_warning col_name],
                  input_df_data_final :=
                    AList.update col_name
                      (if is_numeric_col col_name then PFloat NaN else PStr ''Unknown'')
                      (input_df_data_final st)\<rparr>))"

fun assemble_loop ::
  "number_parser \<Rightarrow> (string \<times> pyval) list \<Rightarrow> assembly \<Rightarrow> string list \<Rightarrow> pyerror + assembly" where
  "assemble_loop parse input_values_from_widgets st [] = Inr st"
| "assemble_loop parse input_values_from_widgets st (col_name # cols) =
     (case assemble_step parse input_values_from_widgets st col_name of
        Inl e \<Rightarrow> Inl e
      | Inr st' \<Rightarrow> assemble_loop parse input_values_from_widgets st' cols)"

definition assemble ::
  "number_parser \<Rightarrow> string list \<Rightarrow> (string \<times> pyval) list \<Rightarrow> pyerror + assembly" where
  "assemble parse original_feature_columns input_values_from_widgets =
     assemble_loop parse input_values_from_widgets
       \<lparr>input_df_data_final = [], st_warnings = []\<rparr> original_feature_columns"

text \<open>
  \<^verbatim>\<open>
  input_df = pd.DataFrame([input_df_data_final], columns=original_feature_columns)
  for col in input_df.columns:
      if col in numerical_cols:
          try:
              if input_df[col].iloc[0] is not None and not pd.isna(input_df[col].iloc[0]):
                   input_df[col] = pd.to_numeric(input_df[col], errors='coerce')
          except:
              input_df[col] = np.nan
  \<close>
  The frame has one row: its columns in order, each with its cell. A column the dict has
  no entry for would hold NaN. When two columns have one name, \<^verbatim>\<open>input_df[col]\<close> is a
  frame, \<^verbatim>\<open>.iloc[0]\<close> a row of several cells and the truth value of \<^verbatim>\<open>pd.isna\<close> of it is
  ambiguous (\<^verbatim>\<open>ValueError\<close>); the bare \<^verbatim>\<open>except\<close> then stores NaN in every column of that name.
\<close>

type_synonym data_frame = "(string \<times> pyval) list"

definition DataFrame :: "(string \<times> pyval) list \<Rightarrow> string list \<Rightarrow> data_frame" where
  "DataFrame row columns = map (\<lambda>c. (c, dict_get row c (PFloat NaN))) columns"

fun isna :: "pyval \<Rightarrow> bool" where
  "isna (PFloat f) = (f = NaN)"
| "isna (PInt i) = False"
| "isna (PStr s) = False"

definition column_cells :: "data_frame \<Rightarrow> string \<Rightarrow> pyval list" where
  "column_cells df col = map snd (filter (\<lambda>cv. fst cv = col) df)"

definition set_column :: "data_frame \<Rightarrow> string \<Rightarrow> pyval \<Rightarrow> data_frame" where
  "set_column df col v = map (\<lambda>cv. if fst cv = col then (col, v) else cv) df"

definition coerce_column :: "number_parser \<Rightarrow> data_frame \<Rightarrow> string \<Rightarrow> data_frame" where
  "coerce_column parse df col =
     (if col \<in> set numerical_cols then
        (case column_cells df col of
           [v] \<Rightarrow>
             if \<not> isna v then
               (case to_numeric parse ErrorsCoerce v of
                  Inr n \<Rightarrow> set_column df col n
                | Inl e \<Rightarrow> set_column df col (PFloat NaN))
             else df
         | _ \<Rightarrow> set_column df col (PFloat NaN))
      else df)"

definition coerce_numerical_cols :: "number_parser \<Rightarrow> data_frame \<Rightarrow> data_frame" where
  "coerce_numerical_cols parse df = foldl (coerce_column parse) df (map fst df)"

text \<open>The frame passed to the preprocessor, with the warnings shown on the way.\<close>

definition input_df ::
  "number_parser \<Rightarrow> string list \<Rightarrow> (string \<times> pyval) list \<Rightarrow> pyerror + (data_frame \<times> string list)" where
  "input_df parse original_feature_columns input_values_from_widgets =
     (case assemble parse original_feature_columns input_values_from_widgets of
        Inl e \<Rightarrow> Inl e
      | Inr st \<Rightarrow>
          Inr (coerce_numerical_cols parse
                 (DataFrame (input_df_data_final st) original_feature_columns),
               st_warnings st))"

text \<open>
  The loops in closed form, for the proofs: the number \<^verbatim>\<open>pd.to_numeric\<close> returns under
  \<^verbatim>\<open>errors='coerce'\<close>, the value the first loop stores for a column, and the cell the second
  loop leaves in a column of the frame.
\<close>

definition coerced :: "number_parser \<Rightarrow> pyval \<Rightarrow> pyval" where
  "coerced parse v = (case to_numeric parse ErrorsCoerce v of Inr n \<Rightarrow> n | Inl e \<Rightarrow> PFloat NaN)"

definition assembled_value :: "number_parser \<Rightarrow> (string \<times> pyval) list \<Rightarrow> string \<Rightarrow> pyval" where
  "assembled_value parse collected col =
     (case map_of collected col of
        Some v \<Rightarrow> if is_numeric_col col then coerced parse v else v
      | None \<Rightarrow> if is_numeric_col col then PFloat NaN else PStr ''Unknown'')"

definition final_cell :: "number_parser \<Rightarrow> string list \<Rightarrow> string \<Rightarrow> pyval \<Rightarrow> pyval" where
  "final_cell parse columns col v =
     (if col \<notin> set numerical_cols then v
      else if count_list columns col = 1 then (if isna v then v else coerced parse v)
      else PFloat NaN)"

section \<open>The page: input widgets and the Predict button\<close>

text \<open>
  One run of the script with the resources loaded. What the widgets return is the input:
  the eleven number inputs of the first column, the number inputs of the second column
  by column name, the option selected in each select box by column name (for the
  transmission, the display label), and the choice of each yes/no box. Streamlit keeps a
  number input within its \<^verbatim>\<open>min_value\<close> and \<^verbatim>\<open>max_value\<close>; the checks of the script are
  modelled for every value.
\<close>

datatype ui_message = StError string | StWarning string | StInfo string

record page =
  valid_inputs :: bool
  messages :: "ui_message list"
  input_values_from_widgets :: "(string \<times> pyval) list"

record widget_inputs =
  mileage :: int
  car_age :: int
  horsepower :: int
  engine_displacement :: pyfloat
  fuel_tank_volume :: pyfloat
  city_fuel_economy :: int
  highway_fuel_economy :: int
  daysonmarket :: int
  owner_count :: int
  savings_amount :: int
  seller_rating :: pyfloat
  dimension :: "string \<Rightarrow> pyfloat"
  maximum_seating :: int
  selection :: "string \<Rightarrow> string"
  flag :: "string \<Rightarrow> bool"

text \<open>Comparison of floats: a NaN is neither less nor greater than anything.\<close>

fun float_rank :: "pyfloat \<Rightarrow> int \<times> rat" where
  "float_rank NegInf = (- 1, 0)"
| "float_rank (Fin x) = (0, x)"
| "float_rank NegZero = (0, 0)"
| "float_rank PosInf = (1, 0)"
| "float_rank NaN = (2, 0)"

definition float_less :: "pyfloat \<Rightarrow> pyfloat \<Rightarrow> bool" where
  "float_less a b =
     (a \<noteq> NaN \<and> b \<noteq> NaN
      \<and> (fst (float_rank a) < fst (float_rank b)
         \<or> fst (float_rank a) = fst (float_rank b) \<and> snd (float_rank a) < snd (float_rank b)))"

text \<open>
  A widget of a column is rendered only if the schema has the column. It shows the
  messages of its checks, a failed check sets \<^verbatim>\<open>valid_inputs = False\<close>, and the value is
  stored under the column name.
\<close>

definition widget ::
  "string list \<Rightarrow> string \<Rightarrow> pyval \<Rightarrow> ui_message list \<times> bool \<Rightarrow> page \<Rightarrow> page" where
  "widget original_feature_columns col v checks pg =
     (if col \<in> set original_feature_columns then
        pg\<lparr>messages := messages pg @ fst checks,
           valid_inputs := (valid_inputs pg \<and> snd checks),
           input_values_from_widgets := AList.update col v (input_values_from_widgets pg)\<rparr>
      else pg)"

definition no_checks :: "ui_message list \<times> bool" where
  "no_checks = ([], True)"

definition mileage_checks :: "int \<Rightarrow> ui_message list \<times> bool" where
  "mileage_checks m =
     (if m > 300000 then
        ([StWarning ''High mileage: This is above typical values for most used cars.''], True)
      else if m < 1000 then ([StInfo ''Very low mileage: Is this a nearly new car?''], True)
      else no_checks)"

definition car_age_checks :: "int \<Rightarrow> ui_message list \<times> bool" where
  "car_age_checks a =
     (if a > 30 then ([StWarning ''This is an unusually old car.''], True)
      else if a < 1 then ([StInfo ''Is this a new or nearly new car?''], True)
      else no_checks)"

text \<open>
  \<^verbatim>\<open>
  if horsepower > 1200 or horsepower < 10:
      st.error("Horsepower must be between 10 and 1200.")
      valid_inputs = False
  elif horsepower > 600:
      st.warning("High horsepower: This is above typical values for most cars.")
  elif horsepower < 50:
      st.info("Very low horsepower: Is this a compact or economy car?")
  \<close>
\<close>

definition horsepower_checks :: "int \<Rightarrow> ui_message list \<times> bool" where
  "horsepower_checks hp =
     (if hp > 1200 \<or> hp < 10 then ([StError ''Horsepower must be between 10 and 1200.''], False)
      else if hp > 600 then
        ([StWarning ''High horsepower: This is above typical values for most cars.''], True)
      else if hp < 50 then
        ([StInfo ''Very low horsepower: Is this a compact or economy car?''], True)
      else no_checks)"

definition engine_displacement_checks :: "pyfloat \<Rightarrow> ui_message list \<times> bool" where
  "engine_displacement_checks d =
     (if float_less (Fin 10) d \<or> float_less d (float_of_rat (1 / 10)) then
        ([StError ''Engine displacement must be between 0.1 and 10.0.''], False)
      else if float_less (Fin 6) d then
        ([StWarning ''Large engine displacement: This is above typical values for most cars.''],
         True)
      else if float_less d (Fin 1) then
        ([StInfo ''Small engine: Is this a compact or hybrid car?''], True)
      else no_checks)"

definition fuel_tank_volume_checks :: "pyfloat \<Rightarrow> ui_message list \<times> bool" where
  "fuel_tank_volume_checks v =
     (if float_less v (Fin 1) \<or> float_less (Fin 100) v then
        ([StError ''Fuel tank volume must be between 1.0 and 100.0 gallons.''], False)
      else no_checks)"

definition city_fuel_economy_checks :: "int \<Rightarrow> ui_message list \<times> bool" where
  "city_fuel_economy_checks e =
     (if e < 1 \<or> e > 150 then
        ([StError ''City fuel economy must be between 1 and 150 MPG.''], False)
      else no_checks)"

definition highway_fuel_economy_checks :: "int \<Rightarrow> ui_message list \<times> bool" where
  "highway_fuel_economy_checks e =
     (if e < 1 \<or> e > 150 then
        ([StError ''Highway fuel economy must be between 1 and 150 MPG.''], False)
      else no_checks)"

definition daysonmarket_checks :: "int \<Rightarrow> ui_message list \<times> bool" where
  "daysonmarket_checks d =
     (if d < 0 then ([StError ''Days on market cannot be negative.''], False) else no_checks)"

definition owner_count_checks :: "int \<Rightarrow> ui_message list \<times> bool" where
  "owner_count_checks n =
     (if n > 10 \<or> n < 0 then ([StError ''Value must be between 0 and 10.''], False)
      else no_checks)"

definition savings_amount_checks :: "int \<Rightarrow> ui_message list \<times> bool" where
  "savings_amount_checks a =
     (if a < 0 then ([StError ''Savings amount cannot be negative.''], False) else no_checks)"

definition seller_rating_checks :: "pyfloat \<Rightarrow> ui_message list \<times> bool" where
  "seller_rating_checks r =
     (if float_less r (Fin 0) \<or> float_less (Fin 5) r then
        ([StError ''Seller rating must be between 0 and 5.''], False)
      else no_checks)"

text \<open>The three columns of the form, widget after widget in the order of the script.\<close>

definition column1 :: "string list \<Rightarrow> widget_inputs \<Rightarrow> page \<Rightarrow> page" where
  "column1 cols w pg =
     (let pg = widget cols ''mileage'' (PInt (mileage w)) (mileage_checks (mileage w)) pg;
          pg = widget cols ''car_age'' (PInt (car_age w)) (car_age_checks (car_age w)) pg;
          pg = widget cols ''horsepower'' (PInt (horsepower w))
                 (horsepower_checks (horsepower w)) pg;
          pg = widget cols ''engine_displacement'' (PFloat (engine_displacement w))
                 (engine_displacement_checks (engine_displacement w)) pg;
          pg = widget cols ''fuel_tank_volume'' (PFloat (fuel_tank_volume w))
                 (fuel_tank_volume_checks (fuel_tank_volume w)) pg;
          pg = widget cols ''city_fuel_economy'' (PInt (city_fuel_economy w))
                 (city_fuel_economy_checks (city_fuel_economy w)) pg;
          pg = widget cols ''highway_fuel_economy'' (PInt (highway_fuel_economy w))
                 (highway_fuel_economy_checks (highway_fuel_economy w)) pg;
          pg = widget cols ''daysonmarket'' (PInt (daysonmarket w))
                 (daysonmarket_checks (daysonmarket w)) pg;
          pg = widget cols ''owner_count'' (PInt (owner_count w))
                 (owner_count_checks (owner_count w)) pg;
          pg = widget cols ''savings_amount'' (PInt (savings_amount w))
                 (savings_amount_checks (savings_amount w)) pg
      in widget cols ''seller_rating'' (PFloat (seller_rating w))
           (seller_rating_checks (seller_rating w)) pg)"

definition column2 :: "string list \<Rightarrow> widget_inputs \<Rightarrow> page \<Rightarrow> page" where
  "column2 cols w pg =
     (let pg = fold (\<lambda>col. widget cols col (PFloat (dimension w col)) no_checks)
                 [''back_legroom'', ''front_legroom'', ''height'', ''length'', ''wheelbase'',
                  ''width''] pg;
          pg = widget cols ''maximum_seating'' (PInt (maximum_seating w)) no_checks pg
      in fold (\<lambda>col. widget cols col (PStr (selection w col)) no_checks)
           [''body_type'', ''engine_cylinders'', ''engine_type'', ''fuel_type''] pg)"

definition column3 :: "string list \<Rightarrow> widget_inputs \<Rightarrow> page \<Rightarrow> page" where
  "column3 cols w pg =
     (let pg = fold (\<lambda>col. widget cols col (PInt (if flag w col then 1 else 0)) no_checks)
                 boolean_flags pg;
          pg = widget cols ''listing_color'' (PStr (selection w ''listing_color'')) no_checks pg;
          pg = widget cols ''transmission''
                 (PStr (original_trans_value transmission_options_map (selection w ''transmission'')))
                 no_checks pg
      in widget cols ''wheel_system'' (PStr (selection w ''wheel_system'')) no_checks pg)"

definition render_inputs :: "string list \<Rightarrow> widget_inputs \<Rightarrow> page" where
  "render_inputs cols w =
     column3 cols w (column2 cols w (column1 cols w
       \<lparr>valid_inputs = True, messages = [], input_values_from_widgets = []\<rparr>))"

text \<open>
  \<^verbatim>\<open>
  if not valid_inputs:
      st.error("Please correct the highlighted input errors before predicting.")
  predict_btn = st.button("Predict Price", type="primary", use_container_width=True,
                          disabled=not valid_inputs)
  if predict_btn:
      ...
      processed_input = preprocessor.transform(input_df)
      prediction = model.predict(processed_input)
      final_price_usd = round(prediction[0], 2)
  \<close>
  \<^verbatim>\<open>st.button\<close> returns true in the run that follows a click, and a disabled button takes
  no click. The preprocessor and the model are outside the script: \<open>predict_usd\<close> stands
  for the calls of \<^verbatim>\<open>transform\<close> and \<^verbatim>\<open>predict\<close> and the rounding of the prediction, a raise
  being a result \<open>Inl\<close>; the \<^verbatim>\<open>try\<close> around the prediction shows every error as a message.
  The page record holds the messages of the form and of the check before the button;
  what the prediction block shows (its warnings, the price or the error) is the result
  \<open>Attempted\<close>.
\<close>

definition st_button :: "bool \<Rightarrow> bool \<Rightarrow> bool" where
  "st_button clicked disabled = (clicked \<and> \<not> disabled)"

datatype prediction = NotAttempted | Attempted "pyerror + (pyfloat \<times> string)"

definition predict_action ::
  "number_parser \<Rightarrow> (data_frame \<Rightarrow> pyerror + pyfloat) \<Rightarrow> remote_outcome \<Rightarrow> string
     \<Rightarrow> string list \<Rightarrow> (string \<times> pyval) list \<Rightarrow> pyerror + (pyfloat \<times> string)" where
  "predict_action parse predict_usd outcome selected_currency cols collected =
     (case input_df parse cols collected of
        Inl e \<Rightarrow> Inl e
      | Inr (df, ws) \<Rightarrow>
          (case predict_usd df of
             Inl e \<Rightarrow> Inl e
           | Inr final_price_usd \<Rightarrow>
               convert final_price_usd selected_currency (get_exchange_rates outcome)))"

definition run_page ::
  "number_parser \<Rightarrow> (data_frame \<Rightarrow> pyerror + pyfloat) \<Rightarrow> remote_outcome \<Rightarrow> string
     \<Rightarrow> string list \<Rightarrow> widget_inputs \<Rightarrow> bool \<Rightarrow> page \<times> prediction" where
  "run_page parse predict_usd outcome selected_currency cols w clicked =
     (let pg = render_inputs cols w;
          pg = (if \<not> valid_inputs pg then
                  pg\<lparr>messages := messages pg
                     @ [StError ''Please correct the highlighted input errors before predicting.'']\<rparr>
                else pg);
          predict_btn = st_button clicked (\<not> valid_inputs pg)
      in (pg,
          if predict_btn then
            Attempted (predict_action parse predict_usd outcome selected_currency cols
              (input_values_from_widgets pg))
          else NotAttempted))"

text \<open>The values the widgets show at first (\<^verbatim>\<open>value=\<close>, the first option, \<^verbatim>\<open>No\<close>).\<close>

definition default_inputs :: widget_inputs where
  "default_inputs =
     \<lparr>mileage = 50000, car_age = 5, horsepower = 200, engine_displacement = Fin (5 / 2),
      fuel_tank_volume = Fin 15, city_fuel_economy = 20, highway_fuel_economy = 30,
      daysonmarket = 30, owner_count = 1, savings_amount = 0, seller_rating = Fin 4,
      dimension = (\<lambda>col. if col = ''back_legroom'' then Fin 35
                     else if col = ''front_legroom'' then Fin 40
                     else if col = ''height'' then Fin 60
                     else if col = ''length'' then Fin 180
                     else if col = ''wheelbase'' then Fin 100
                     else Fin 70),
      maximum_seating = 5,
      selection = (\<lambda>col. case map_of categorical_widget_map col of
                     Some (option # options) \<Rightarrow> option | _ \<Rightarrow> []),
      flag = (\<lambda>col. False)\<rparr>"

section \<open>Properties of the option catalogs\<close>

lemma count_list_distinct: "distinct xs \<Longrightarrow> x \<in> set xs \<Longrightarrow> count_list xs x = 1"
  by (induction xs) auto

lemma dec_digits_length_pos: "1 \<le> length (dec_digits n)"
  by (subst dec_digits.simps) simp

lemma dec_digits_length_le:
  "1 \<le> k \<Longrightarrow> length (dec_digits n) \<le> k \<longleftrightarrow> n < 10 ^ k"
proof (induction n arbitrary: k rule: dec_digits.induct)
  case (1 n)
  show ?case
  proof (cases "n < 10")
    case True
    have "(10::nat) ^ 1 \<le> 10 ^ k"
      using 1(2) by (intro power_increasing) simp_all
    with True have "n < 10 ^ k" by simp
    moreover have "length (dec_digits n) = 1"
      using True by (subst dec_digits.simps) simp
    ultimately show ?thesis using 1(2) by simp
  next
    case False
    have len: "length (dec_digits n) = length (dec_digits (n div 10)) + 1"
      using False by (subst dec_digits.simps) simp
    show ?thesis
    proof (cases "k = 1")
      case True
      have "dec_digits (n div 10) \<noteq> []"
        by (subst dec_digits.simps) simp
      then have "\<not> length (dec_digits n) \<le> 1"
        using len by simp
      with False True show ?thesis by simp
    next
      case k: False
      with 1(2) obtain j where j: "k = Suc j" "1 \<le> j"
        by (cases k) auto
      from 1(1) [OF False j(2)]
      have "length (dec_digits (n div 10)) \<le> j \<longleftrightarrow> n div 10 < 10 ^ j" .
      moreover have "n div 10 < 10 ^ j \<longleftrightarrow> n < 10 ^ j * 10"
        by (simp add: div_less_iff_less_mult)
      ultimately show ?thesis
        using len j(1) by (simp add: mult.commute)
    qed
  qed
qed

lemma renders_int: "renders (RInt i) \<longleftrightarrow> \<bar>i\<bar> < 10 ^ int_max_str_digits"
proof -
  have k: "1 \<le> int_max_str_digits"
    by (simp add: int_max_str_digits_def)
  have "renders (RInt i) \<longleftrightarrow> length (dec_digits (nat \<bar>i\<bar>)) \<le> int_max_str_digits"
    by (auto simp: renders_def)
  also have "\<dots> \<longleftrightarrow> nat \<bar>i\<bar> < 10 ^ int_max_str_digits"
    by (rule dec_digits_length_le [OF k])
  also have "\<dots> \<longleftrightarrow> \<bar>i\<bar> < 10 ^ int_max_str_digits"
  proof -
    have "int (nat \<bar>i\<bar>) < int (10 ^ int_max_str_digits) \<longleftrightarrow> nat \<bar>i\<bar> < 10 ^ int_max_str_digits"
      by (rule of_nat_less_iff)
    then show ?thesis by simp
  qed
  finally show ?thesis .
qed

lemma renders_other: "renders (RStr s)" "renders RNan" "renders RNone"
  by (simp_all add: renders_def)

lemma options_str_renders:
  "list_all renders raw \<Longrightarrow>
     options_str raw nan_replacement =
       Inr (map (\<lambda>item. if isna_raw item then nan_replacement
              else (case py_str item of Inr s \<Rightarrow> s | Inl e \<Rightarrow> [])) raw)"
  by (induction raw) (auto simp: renders_def split: sum.splits)

lemma options_str_raises:
  "\<not> list_all renders raw \<Longrightarrow> options_str raw nan_replacement = Inl ValueError"
proof (induction raw)
  case Nil
  then show ?case by simp
next
  case (Cons item raw)
  show ?case
  proof (cases "renders item")
    case True
    with Cons have "options_str raw nan_replacement = Inl ValueError" by simp
    with True show ?thesis by (auto simp: renders_def split: sum.splits)
  next
    case False
    then obtain i where i: "item = RInt i"
      by (cases item) (simp_all add: renders_def)
    with False have "py_str item = Inl ValueError"
      by (simp add: renders_def split: if_splits)
    with i show ?thesis by simp
  qed
qed

lemma list_of_set_distinct: "distinct (list_of_set order xs)"
  by (simp add: list_of_set_def)

lemma list_of_set_set: "set (list_of_set order xs) = set xs"
  by (simp add: list_of_set_def)

text \<open>
  As stated, claim C5 fails: \<^verbatim>\<open>prepare_options([10 ** 4300])\<close> raises \<^verbatim>\<open>ValueError\<close>, since
  \<^verbatim>\<open>str\<close> refuses an integer of 4301 digits.
\<close>

theorem prepare_options_raises_counterexample:
  "prepare_options (\<lambda>xs. xs) [RInt (10 ^ 4300)] ''Unknown'' True = Inl ValueError"
proof -
  have n: "(4300::nat) = int_max_str_digits"
    by (simp add: int_max_str_digits_def)
  have "\<not> \<bar>10 ^ int_max_str_digits :: int\<bar> < 10 ^ int_max_str_digits"
    by simp
  then have "\<not> renders (RInt (10 ^ int_max_str_digits))"
    by (simp add: renders_int)
  then have "\<not> list_all renders [RInt (10 ^ int_max_str_digits)]"
    by simp
  then have "options_str [RInt (10 ^ int_max_str_digits)] ''Unknown'' = Inl ValueError"
    by (rule options_str_raises)
  then have "prepare_options (\<lambda>xs. xs) [RInt (10 ^ int_max_str_digits)] ''Unknown'' True
      = Inl ValueError"
    by (simp only: prepare_options_def sum.case)
  then show ?thesis
    by (simp only: n)
qed

text \<open>
  Claim C5, amended. For every list of raw option values whose integer entries have at
  most 4300 decimal digits (so for every list of strings and null entries),
  \<^const>\<open>prepare_options\<close> with sorting enabled returns, whatever the order of the set, exactly
  the strings of the entries, every null entry (\<^verbatim>\<open>np.nan\<close>, \<^verbatim>\<open>None\<close>) replaced by the
  sentinel; the result has no duplicates and is strictly ascending in the lexicographic
  order of strings by character code; it contains the sentinel, once, whenever the input
  holds a null. The empty list gives the empty list. The only error is the
  \<^verbatim>\<open>ValueError\<close> of \<^verbatim>\<open>str\<close> on an integer entry of more than 4300 digits.
\<close>

theorem prepare_options_normalizes:
  "(list_all renders raw \<longrightarrow>
      (\<exists>options. prepare_options order raw nan_replacement True = Inr options
         \<and> set options =
             (\<lambda>item. if isna_raw item then nan_replacement
                else (case py_str item of Inr s \<Rightarrow> s | Inl e \<Rightarrow> [])) ` set raw
         \<and> distinct options
         \<and> sorted options
         \<and> sorted_wrt (\<lambda>a b. (a, b) \<in> lexord {(u, v). of_char u < (of_char v :: nat)}) options
         \<and> ((\<exists>item \<in> set raw. isna_raw item) \<longrightarrow>
              nan_replacement \<in> set options \<and> count_list options nan_replacement = 1)))
   \<and> (\<not> list_all renders raw \<longrightarrow>
        prepare_options order raw nan_replacement sort_flag = Inl ValueError)
   \<and> prepare_options order [] nan_replacement True = Inr []
   \<and> (\<forall>i. renders (RInt i) \<longleftrightarrow> \<bar>i\<bar> < 10 ^ int_max_str_digits)
   \<and> (\<forall>s. renders (RStr s) \<and> py_str (RStr s) = Inr s)
   \<and> renders RNan \<and> renders RNone
   \<and> int_max_str_digits = 4300"
proof -
  let ?f = "\<lambda>item. if isna_raw item then nan_replacement
      else (case py_str item of Inr s \<Rightarrow> s | Inl e \<Rightarrow> [])"
  let ?r = "sort (list_of_set order (map ?f raw))"
  have a: "\<exists>options. prepare_options order raw nan_replacement True = Inr options
         \<and> set options = ?f ` set raw
         \<and> distinct options
         \<and> sorted options
         \<and> sorted_wrt (\<lambda>a b. (a, b) \<in> lexord {(u, v). of_char u < (of_char v :: nat)}) options
         \<and> ((\<exists>item \<in> set raw. isna_raw item) \<longrightarrow>
              nan_replacement \<in> set options \<and> count_list options nan_replacement = 1)"
    if ok: "list_all renders raw"
  proof -
    have p: "prepare_options order raw nan_replacement True = Inr ?r"
      by (simp add: prepare_options_def options_str_renders [OF ok])
    have s: "set ?r = ?f ` set raw"
      by (simp add: list_of_set_set)
    have d: "distinct ?r"
      by (simp add: list_of_set_distinct)
    have o: "sorted ?r"
      by simp
    have "sorted_wrt (<) ?r"
      using d o by (simp add: strict_sorted_iff)
    moreover have "(\<lambda>a b. (a, b) \<in> lexord {(u, v). of_char u < (of_char v :: nat)})
        = ((<) :: string \<Rightarrow> string \<Rightarrow> bool)"
      by (intro ext) (simp add: list_less_def less_char_def)
    ultimately have l: "sorted_wrt (\<lambda>a b. (a, b) \<in> lexord {(u, v). of_char u < (of_char v :: nat)}) ?r"
      by simp
    have m: "nan_replacement \<in> set ?r" if "\<exists>item \<in> set raw. isna_raw item"
      using that unfolding s by force
    have c: "count_list ?r nan_replacement = 1" if "\<exists>item \<in> set raw. isna_raw item"
      using m [OF that] d by (rule count_list_distinct [rotated])
    show ?thesis
    proof (intro exI conjI impI)
      show "prepare_options order raw nan_replacement True = Inr ?r" by (rule p)
      show "set ?r = ?f ` set raw" by (rule s)
      show "distinct ?r" by (rule d)
      show "sorted ?r" by (rule o)
      show "sorted_wrt (\<lambda>a b. (a, b) \<in> lexord {(u, v). of_char u < (of_char v :: nat)}) ?r"
        by (rule l)
      show "nan_replacement \<in> set ?r" if "\<exists>item \<in> set raw. isna_raw item"
        using that by (rule m)
      show "count_list ?r nan_replacement = 1" if "\<exists>item \<in> set raw. isna_raw item"
        using that by (rule c)
    qed
  qed
  have b: "prepare_options order raw nan_replacement sort_flag = Inl ValueError"
    if "\<not> list_all renders raw"
    by (simp add: prepare_options_def options_str_raises [OF that])
  have e: "prepare_options order [] nan_replacement True = Inr []"
    by (simp add: prepare_options_def list_of_set_def)
  have i: "\<forall>i. renders (RInt i) \<longleftrightarrow> \<bar>i\<bar> < 10 ^ int_max_str_digits"
    using renders_int by blast
  have t: "\<forall>s. renders (RStr s) \<and> py_str (RStr s) = Inr s"
    by (simp add: renders_other)
  show ?thesis
  proof (intro conjI impI)
    show "\<exists>options. prepare_options order raw nan_replacement True = Inr options
         \<and> set options = ?f ` set raw
         \<and> distinct options
         \<and> sorted options
         \<and> sorted_wrt (\<lambda>a b. (a, b) \<in> lexord {(u, v). of_char u < (of_char v :: nat)}) options
         \<and> ((\<exists>item \<in> set raw. isna_raw item) \<longrightarrow>
              nan_replacement \<in> set options \<and> count_list options nan_replacement = 1)"
      if "list_all renders raw"
      using that by (rule a)
    show "prepare_options order raw nan_replacement sort_flag = Inl ValueError"
      if "\<not> list_all renders raw"
      using that by (rule b)
    show "prepare_options order [] nan_replacement True = Inr []" by (rule e)
    show "\<forall>i. renders (RInt i) \<longleftrightarrow> \<bar>i\<bar> < 10 ^ int_max_str_digits" by (rule i)
    show "\<forall>s. renders (RStr s) \<and> py_str (RStr s) = Inr s" by (rule t)
    show "renders RNan" by (rule renders_other)
    show "renders RNone" by (rule renders_other)
    show "int_max_str_digits = 4300" by (rule int_max_str_digits_def)
  qed
qed

theorem prepare_options_normalizes_witness:
  "list_all renders [RStr ''M'', RNan, RStr ''A'', RInt 7, RNone]
   \<and> (\<exists>item \<in> set [RStr ''M'', RNan, RStr ''A'', RInt 7, RNone]. isna_raw item)
   \<and> (\<exists>options. prepare_options rev [RStr ''M'', RNan, RStr ''A'', RInt 7, RNone] ''Unknown'' True
          = Inr options
        \<and> ''Unknown'' \<in> set options \<and> count_list options ''Unknown'' = 1 \<and> distinct options)"
proof -
  let ?raw = "[RStr ''M'', RNan, RStr ''A'', RInt 7, RNone]"
  have "(7::int) < 10 ^ 1" by simp
  also have "(10::int) ^ 1 \<le> 10 ^ int_max_str_digits"
    by (intro power_increasing) (simp_all add: int_max_str_digits_def)
  finally have "renders (RInt 7)"
    by (simp add: renders_int)
  then have h1: "list_all renders ?raw"
    by (simp add: renders_other)
  have h2: "\<exists>item \<in> set ?raw. isna_raw item"
    by simp
  from prepare_options_normalizes [of ?raw rev "''Unknown''"] h1 h2
  show ?thesis by blast
qed

section \<open>Properties of the transmission mapping\<close>

lemma trans_items_loop_absent:
  "selected \<notin> snd ` set items \<Longrightarrow> trans_items_loop items selected original = original"
  by (induction items) auto

lemma trans_items_loop_present:
  "selected \<in> snd ` set items \<Longrightarrow> distinct (map fst items) \<Longrightarrow>
     map_of items (trans_items_loop items selected original) = Some selected"
proof (induction items)
  case Nil
  then show ?case by simp
next
  case (Cons kv items)
  obtain k v where kv: "kv = (k, v)" by (cases kv)
  show ?case
  proof (cases "v = selected")
    case True
    then show ?thesis using kv by simp
  next
    case False
    with Cons.prems kv have sel: "selected \<in> snd ` set items" and dist: "distinct (map fst items)"
      and k: "k \<notin> fst ` set items"
      by auto
    from Cons.IH [OF sel dist]
    have ih: "map_of items (trans_items_loop items selected original) = Some selected" .
    then have "trans_items_loop items selected original \<in> fst ` set items"
      by (force dest: map_of_SomeD)
    with k have "trans_items_loop items selected original \<noteq> k" by auto
    with ih False kv show ?thesis by simp
  qed
qed

lemma trans_items_loop_first:
  "trans_items_loop (pre @ (k, selected) # post) selected original = k"
  if "selected \<notin> snd ` set pre"
  using that by (induction pre) auto

text \<open>
  Claim C6. On the transmission display map, the reverse lookup of the display label of
  an internal code returns that code (a round trip), and a label outside the map's
  values is returned unchanged. For every insertion-ordered dictionary the lookup of a
  label among the values returns a code that maps to that label, namely the first in
  declaration order. The lookup is a total function of the map and the label.
\<close>

theorem original_trans_value_roundtrip:
  "(\<forall>k v. map_of transmission_options_map k = Some v \<longrightarrow>
        original_trans_value transmission_options_map v = k)
   \<and> (\<forall>label. label \<notin> snd ` set transmission_options_map \<longrightarrow>
        original_trans_value transmission_options_map label = label)
   \<and> (\<forall>options_map label. distinct (map fst options_map) \<longrightarrow>
        label \<in> snd ` set options_map \<longrightarrow>
        map_of options_map (original_trans_value options_map label) = Some label)
   \<and> (\<forall>options_map label. label \<notin> snd ` set options_map \<longrightarrow>
        original_trans_value options_map label = label)
   \<and> (\<forall>pre k label post. label \<notin> snd ` set pre \<longrightarrow>
        original_trans_value (pre @ (k, label) # post) label = k)"
proof -
  have a: "original_trans_value transmission_options_map v = k"
    if "map_of transmission_options_map k = Some v" for k v
    using that
    by (auto simp: transmission_options_map_def original_trans_value_def split: if_splits)
  have b: "original_trans_value options_map label = label"
    if "label \<notin> snd ` set options_map" for options_map label
    using that by (simp add: original_trans_value_def trans_items_loop_absent)
  have c: "map_of options_map (original_trans_value options_map label) = Some label"
    if "distinct (map fst options_map)" "label \<in> snd ` set options_map" for options_map label
    using that by (simp add: original_trans_value_def trans_items_loop_present)
  have d: "original_trans_value (pre @ (k, label) # post) label = k"
    if "label \<notin> snd ` set pre" for pre k label post
    using that by (simp add: original_trans_value_def trans_items_loop_first)
  show ?thesis
    using a b c d by blast
qed

theorem original_trans_value_roundtrip_witness:
  "map_of transmission_options_map ''A'' = Some ''Automatic''
   \<and> original_trans_value transmission_options_map ''Automatic'' = ''A''
   \<and> ''Semi-automatic'' \<notin> snd ` set transmission_options_map
   \<and> original_trans_value transmission_options_map ''Semi-automatic'' = ''Semi-automatic''"
proof -
  have h1: "map_of transmission_options_map ''A'' = Some ''Automatic''"
    by (simp add: transmission_options_map_def)
  have h2: "''Semi-automatic'' \<notin> snd ` set transmission_options_map"
    by (simp add: transmission_options_map_def)
  from original_trans_value_roundtrip h1 h2 show ?thesis by blast
qed

section \<open>Properties of the number formats\<close>

lemma below_ten:
  "(k::nat) < 10 \<Longrightarrow>
     k = 0 \<or> k = 1 \<or> k = 2 \<or> k = 3 \<or> k = 4 \<or> k = 5 \<or> k = 6 \<or> k = 7 \<or> k = 8 \<or> k = 9"
  by arith

lemma digit_char_is_digit: "is_digit (digit_char d)"
proof -
  have "d mod 10 < 10" by simp
  from below_ten [OF this] show ?thesis
    by (auto simp: is_digit_def digit_char_def)
qed


lemma dec_digits_all_digits: "list_all is_digit (dec_digits n)"
proof (induction n rule: dec_digits.induct)
  case (1 n)
  then show ?case
    by (subst dec_digits.simps) (simp add: digit_char_is_digit)
qed




lemma is_digit_not_comma: "is_digit c \<Longrightarrow> c \<noteq> CHR '',''"
  by (auto simp: is_digit_def)

lemma remove_commas_digits: "list_all is_digit xs \<Longrightarrow> remove_commas xs = xs"
  by (induction xs) (auto simp: remove_commas_def is_digit_not_comma)




lemma group_thousands_step:
  "\<not> length ds \<le> 3 \<Longrightarrow>
     group_thousands ds =
       group_thousands (take (length ds - 3) ds) @ CHR '','' # drop (length ds - 3) ds"
  by (subst group_thousands.simps) simp


lemma remove_commas_group:
  "list_all is_digit ds \<Longrightarrow> remove_commas (group_thousands ds) = ds"
proof (induction ds rule: group_thousands.induct)
  case (1 ds)
  show ?case
  proof (cases "length ds \<le> 3")
    case True
    with 1(2) show ?thesis
      by (subst group_thousands.simps) (simp add: remove_commas_digits)
  next
    case False
    let ?a = "take (length ds - 3) ds" and ?b = "drop (length ds - 3) ds"
    have da: "list_all is_digit ?a" and db: "list_all is_digit ?b"
      using 1(2) by (auto simp: list_all_iff dest: in_set_takeD in_set_dropD)
    from 1(1) [OF False da] have ih: "remove_commas (group_thousands ?a) = ?a" .
    have "remove_commas (group_thousands ds) = remove_commas (group_thousands ?a) @ remove_commas ?b"
      unfolding group_thousands_step [OF False] by (simp add: remove_commas_def)
    with ih remove_commas_digits [OF db] show ?thesis by simp
  qed
qed


lemma remove_commas_format_int: "remove_commas (format_int_grouped i) = str_int i"
proof -
  have "remove_commas (format_int_grouped i) =
      (if i < 0 then ''-'' else []) @ remove_commas (group_thousands (dec_digits (nat \<bar>i\<bar>)))"
    by (simp add: format_int_grouped_def remove_commas_def)
  then show ?thesis
    by (simp add: remove_commas_group [OF dec_digits_all_digits] str_int_def)
qed





section \<open>Properties of the floating point model\<close>

lemma floor_rat_numeral [simp]:
  "\<lfloor>numeral a / numeral b :: rat\<rfloor> = numeral a div numeral b"
  by (metis floor_divide_of_int_eq of_int_numeral)

lemma floor_rat_neg_numeral [simp]:
  "\<lfloor>- (numeral a / numeral b) :: rat\<rfloor> = - numeral a div numeral b"
  by (metis floor_divide_of_int_eq of_int_numeral of_int_minus minus_divide_left)

lemma ceiling_rat_neg_numeral [simp]:
  "\<lceil>- (numeral a / numeral b) :: rat\<rceil> = - (numeral a div numeral b)"
  by (simp add: ceiling_def)

lemma pow2_powi: "pow2 e = 2 powi e"
  by (simp add: pow2_def power_int_def inverse_eq_divide power_one_over)

lemma pow2_pos: "0 < pow2 e"
  by (simp add: pow2_powi)

lemma pow2_less_iff: "pow2 a < pow2 b \<longleftrightarrow> a < b"
proof
  assume less: "pow2 a < pow2 b"
  show "a < b"
  proof (rule ccontr)
    assume "\<not> a < b"
    then have "b \<le> a" by simp
    then have "pow2 b \<le> pow2 a"
      unfolding pow2_powi by (intro power_int_increasing) auto
    with less show False by simp
  qed
next
  assume "a < b"
  then show "pow2 a < pow2 b"
    unfolding pow2_powi by (intro power_int_strict_increasing) auto
qed

lemma pow2_diff: "pow2 (a - b) = pow2 a / pow2 b"
  by (simp add: pow2_powi power_int_diff)

lemma pow2_nat: "0 \<le> n \<Longrightarrow> pow2 n = of_int (2 ^ nat n)"
  by (simp add: pow2_def)

lemma ilog2_bounds:
  assumes "0 < x"
  shows "pow2 (ilog2 x) \<le> x \<and> x < pow2 (ilog2 x + 1)"
proof -
  obtain p q where pq: "quotient_of x = (p, q)" by (cases "quotient_of x")
  have q: "0 < q" using quotient_of_denom_pos [OF pq] .
  have x: "x = of_int p / of_int q" using quotient_of_div [OF pq] .
  have p: "0 < p" using assms q x by (simp add: zero_less_divide_iff)
  let ?d = "bitlen p - bitlen q"
  have bp: "1 \<le> bitlen p" and bq: "1 \<le> bitlen q"
    using p q by (auto simp: bitlen_alt_def)
  from bitlen_bounds [OF p] bp
  have p1: "pow2 (bitlen p - 1) \<le> of_int p" and p2: "of_int p < pow2 (bitlen p)"
    by (simp_all add: pow2_nat)
  from bitlen_bounds [OF q] bq
  have q1: "pow2 (bitlen q - 1) \<le> of_int q" and q2: "of_int q < pow2 (bitlen q)"
    by (simp_all add: pow2_nat)
  have "of_int p / of_int q < pow2 (bitlen p) / pow2 (bitlen q - 1)"
    using p p2 q1 by (intro frac_less) (simp_all add: pow2_pos)
  then have upper: "x < pow2 (?d + 1)"
    unfolding x by (simp flip: pow2_diff add: algebra_simps)
  have "pow2 (bitlen p - 1) / pow2 (bitlen q) \<le> of_int p / of_int q"
    using p q p1 q2 by (intro frac_le) (simp_all add: pow2_pos less_imp_le)
  then have lower: "pow2 (?d - 1) \<le> x"
    unfolding x by (simp flip: pow2_diff add: algebra_simps)
  show ?thesis
  proof (cases "pow2 ?d \<le> x")
    case True
    then have "ilog2 x = ?d" by (simp add: ilog2_def pq)
    with True upper show ?thesis by simp
  next
    case False
    then have "ilog2 x = ?d - 1" by (simp add: ilog2_def pq)
    with False lower show ?thesis by simp
  qed
qed

lemma ilog2_unique:
  assumes "pow2 k \<le> x" "x < pow2 (k + 1)"
  shows "ilog2 x = k"
proof -
  have pos: "0 < x" using assms(1) pow2_pos [of k] by simp
  from ilog2_bounds [OF pos]
  have l: "pow2 (ilog2 x) \<le> x" and u: "x < pow2 (ilog2 x + 1)" by simp_all
  from l assms(2) have "pow2 (ilog2 x) < pow2 (k + 1)" by simp
  then have a: "ilog2 x < k + 1" by (simp add: pow2_less_iff)
  from assms(1) u have "pow2 k < pow2 (ilog2 x + 1)" by simp
  then have b: "k < ilog2 x + 1" by (simp add: pow2_less_iff)
  from a b show ?thesis by simp
qed

text \<open>Rounding, once the binary exponent \<open>k\<close> of the magnitude is known.\<close>

lemma round_double_at:
  assumes "pow2 k \<le> x" "x < pow2 (k + 1)"
  shows "round_double neg x =
     (let e = max (k - 52) (- 1074);
          r = of_int (round_half_even (x / pow2 e)) * pow2 e
      in if pow2 1024 \<le> r then signed_inf neg
         else if r = 0 then signed_zero neg
         else Fin (if neg then - r else r))"
proof -
  have "0 < x" using assms(1) pow2_pos [of k] by simp
  then show ?thesis
    by (simp add: round_double_def ilog2_unique [OF assms])
qed

lemmas float_eval =
  float_of_rat_def pow2_def round_half_even_def Let_def signed_inf_def signed_zero_def




lemma float_15000_9: "float_of_rat (150009 / 10) = Fin (8246831988552499 / 549755813888)"
  by (simp add: float_eval round_double_at [where k = 13])

lemma fallback_rates_values:
  "fallback_rates =
     JObj [(''USD'', JFloat (Fin 1)),
           (''EUR'', JFloat (Fin (7656119366529843 / 9007199254740992))),
           (''GBP'', JFloat (Fin (3 / 4))), (''JPY'', JFloat (Fin 110)),
           (''CAD'', JFloat (Fin (5 / 4))),
           (''AUD'', JFloat (Fin (3039929748475085 / 2251799813685248))),
           (''EGP'', JInt 50)]"
proof -
  have "float_of_rat 1 = Fin 1"
    by (simp add: float_eval round_double_at [where k = 0])
  moreover have "float_of_rat (85 / 100) = Fin (7656119366529843 / 9007199254740992)"
    by (simp add: float_eval round_double_at [where k = "- 1"])
  moreover have "float_of_rat (75 / 100) = Fin (3 / 4)"
    by (simp add: float_eval round_double_at [where k = "- 1"])
  moreover have "float_of_rat 110 = Fin 110"
    by (simp add: float_eval round_double_at [where k = 6])
  moreover have "float_of_rat (125 / 100) = Fin (5 / 4)"
    by (simp add: float_eval round_double_at [where k = 0])
  moreover have "float_of_rat (135 / 100) = Fin (3039929748475085 / 2251799813685248)"
    by (simp add: float_eval round_double_at [where k = 0])
  ultimately show ?thesis
    by (simp add: fallback_rates_def)
qed

lemma py_int_trunc:
  "\<exists>t. py_int (Fin x) = Inr t \<and> \<bar>t\<bar> = \<lfloor>\<bar>x\<bar>\<rfloor> \<and> (0 \<le> x \<longrightarrow> 0 \<le> t) \<and> (x \<le> 0 \<longrightarrow> t \<le> 0)
       \<and> (t < 0 \<longleftrightarrow> x \<le> - 1)"
proof (cases "0 \<le> x")
  case True
  then show ?thesis by (simp add: abs_of_nonneg)
next
  case False
  then have "\<lceil>x\<rceil> \<le> 0" by (simp add: ceiling_le_zero)
  moreover have "\<lfloor>- x\<rfloor> = - \<lceil>x\<rceil>" by (simp add: ceiling_def)
  moreover have "\<lceil>x\<rceil> < 0 \<longleftrightarrow> x \<le> - 1" by (simp add: ceiling_less_iff)
  ultimately show ?thesis using False by (simp add: abs_of_neg)
qed

section \<open>Properties of the exchange rate fetch\<close>

lemma update_absent: "map_of d k = None \<Longrightarrow> AList.update k v d = d @ [(k, v)]"
  by (induction d) (auto split: if_splits)

lemma update_present: "map_of d k = Some v \<Longrightarrow> map_of d k \<noteq> None"
  by simp

text \<open>
  Claim C8. The fetch never raises: whenever the body of the \<^verbatim>\<open>try\<close> raises, whatever
  the error, the result is the fallback table. On a network failure, on a parse failure
  and on a response that does not indicate success the result is the fallback table,
  which has an entry for each of USD, EUR, GBP, JPY, CAD, AUD and EGP holding a finite
  positive rate. On a response that indicates success and whose rates are a dict with no
  EGP entry, the result is that dict with the entry EGP: 50 added at its end; with an EGP
  entry, the dict is returned as it is.
\<close>

theorem get_exchange_rates_never_raises:
  "(\<forall>outcome e. get_exchange_rates_try outcome = Inl e \<longrightarrow>
        get_exchange_rates outcome = fallback_rates)
   \<and> get_exchange_rates NetworkFailure = fallback_rates
   \<and> get_exchange_rates ParseFailure = fallback_rates
   \<and> (\<forall>data. \<not> indicates_success data \<longrightarrow> get_exchange_rates (Response data) = fallback_rates)
   \<and> list_all (\<lambda>c. case subscript fallback_rates c of Inr r \<Rightarrow> finite_positive r | Inl e \<Rightarrow> False)
        [''USD'', ''EUR'', ''GBP'', ''JPY'', ''CAD'', ''AUD'', ''EGP'']
   \<and> (\<forall>data d. indicates_success data \<longrightarrow> subscript data ''rates'' = Inr (JObj d) \<longrightarrow>
        map_of d ''EGP'' = None \<longrightarrow>
        get_exchange_rates (Response data) = JObj (d @ [(''EGP'', JInt 50)]))
   \<and> (\<forall>data d v. indicates_success data \<longrightarrow> subscript data ''rates'' = Inr (JObj d) \<longrightarrow>
        map_of d ''EGP'' = Some v \<longrightarrow>
        get_exchange_rates (Response data) = JObj d)"
proof -
  have a: "get_exchange_rates outcome = fallback_rates"
    if "get_exchange_rates_try outcome = Inl e" for outcome e
    using that by (simp add: get_exchange_rates_def)
  have b: "get_exchange_rates NetworkFailure = fallback_rates"
    by (simp add: get_exchange_rates_def get_exchange_rates_try_def)
  have c: "get_exchange_rates ParseFailure = fallback_rates"
    by (simp add: get_exchange_rates_def get_exchange_rates_try_def)
  have d: "get_exchange_rates (Response data) = fallback_rates"
    if "\<not> indicates_success data" for data
    using that
    by (auto simp: get_exchange_rates_def get_exchange_rates_try_def indicates_success_def
        split: sum.splits)
  have e: "list_all (\<lambda>c. case subscript fallback_rates c of Inr r \<Rightarrow> finite_positive r | Inl e \<Rightarrow> False)
        [''USD'', ''EUR'', ''GBP'', ''JPY'', ''CAD'', ''AUD'', ''EGP'']"
    by (simp add: fallback_rates_values)
  have f: "get_exchange_rates (Response data) = JObj (d @ [(''EGP'', JInt 50)])"
    if "indicates_success data" "subscript data ''rates'' = Inr (JObj d)" "map_of d ''EGP'' = None"
    for data d
    using that
    by (simp add: get_exchange_rates_def get_exchange_rates_try_def indicates_success_def
        update_absent)
  have g: "get_exchange_rates (Response data) = JObj d"
    if "indicates_success data" "subscript data ''rates'' = Inr (JObj d)" "map_of d ''EGP'' = Some v"
    for data d v
    using that
    by (simp add: get_exchange_rates_def get_exchange_rates_try_def indicates_success_def)
  show ?thesis
    using a b c d e f g by blast
qed

theorem get_exchange_rates_never_raises_witness:
  "get_exchange_rates_try (Response (JArr [])) = Inl TypeError
   \<and> get_exchange_rates (Response (JArr [])) = fallback_rates
   \<and> \<not> indicates_success (JObj [(''result'', JStr ''error'')])
   \<and> get_exchange_rates (Response (JObj [(''result'', JStr ''error'')])) = fallback_rates
   \<and> get_exchange_rates
        (Response (JObj [(''result'', JStr ''success''), (''rates'', JObj [(''USD'', JInt 1)])]))
      = JObj [(''USD'', JInt 1), (''EGP'', JInt 50)]"
proof -
  let ?ok = "JObj [(''result'', JStr ''success''), (''rates'', JObj [(''USD'', JInt 1)])]"
  have h1: "get_exchange_rates_try (Response (JArr [])) = Inl TypeError"
    by (simp add: get_exchange_rates_try_def)
  have h2: "\<not> indicates_success (JObj [(''result'', JStr ''error'')])"
    by (simp add: indicates_success_def)
  have h3: "indicates_success ?ok"
    by (simp add: indicates_success_def)
  have h4: "subscript ?ok ''rates'' = Inr (JObj [(''USD'', JInt 1)])"
    by simp
  have h5: "map_of [(''USD'', JInt 1)] ''EGP'' = None"
    by simp
  from get_exchange_rates_never_raises h1 h2 h3 h4 h5
  have "get_exchange_rates (Response (JArr [])) = fallback_rates"
    and "get_exchange_rates (Response (JObj [(''result'', JStr ''error'')])) = fallback_rates"
    and "get_exchange_rates (Response ?ok) = JObj ([(''USD'', JInt 1)] @ [(''EGP'', JInt 50)])"
    by blast+
  with h1 h2 show ?thesis by simp
qed

section \<open>Properties of the currency conversion\<close>






lemma format_15000: "format_int_grouped 15000 = ''15,000''"
  by (simp add: format_int_grouped_def dec_digits.simps digit_char_def group_thousands.simps)




text \<open>
  Claim C10. For \<^verbatim>\<open>JPY\<close> the display of a finite converted price \<open>x\<close> is the grouped
  rendering of \<^verbatim>\<open>int(x)\<close>, and \<^verbatim>\<open>int(x)\<close> is \<open>x\<close> truncated toward zero: its magnitude is the
  integer part of \<open>|x|\<close> and its sign is never opposite to that of \<open>x\<close>; without the commas
  the display is the decimal rendering of that integer. The float 15000.9 is displayed as
  \<^verbatim>\<open>"15,000"\<close>, although the nearest integer is 15001.
\<close>

theorem formatted_price_jpy_truncates:
  "(\<forall>x. \<exists>t. py_int (Fin x) = Inr t \<and> \<bar>t\<bar> = \<lfloor>\<bar>x\<bar>\<rfloor> \<and> (0 \<le> x \<longrightarrow> 0 \<le> t) \<and> (x \<le> 0 \<longrightarrow> t \<le> 0)
        \<and> formatted_price ''JPY'' (Fin x) = Inr (format_int_grouped t)
        \<and> remove_commas (format_int_grouped t) = str_int t)
   \<and> float_of_rat (150009 / 10) = Fin (8246831988552499 / 549755813888)
   \<and> formatted_price ''JPY'' (float_of_rat (150009 / 10)) = Inr ''15,000''
   \<and> round_half_even (8246831988552499 / 549755813888) = 15001"
proof -
  have a: "\<exists>t. py_int (Fin x) = Inr t \<and> \<bar>t\<bar> = \<lfloor>\<bar>x\<bar>\<rfloor> \<and> (0 \<le> x \<longrightarrow> 0 \<le> t) \<and> (x \<le> 0 \<longrightarrow> t \<le> 0)
        \<and> formatted_price ''JPY'' (Fin x) = Inr (format_int_grouped t)
        \<and> remove_commas (format_int_grouped t) = str_int t" for x
  proof -
    from py_int_trunc [of x] obtain t where
      t: "py_int (Fin x) = Inr t" "\<bar>t\<bar> = \<lfloor>\<bar>x\<bar>\<rfloor>" "0 \<le> x \<longrightarrow> 0 \<le> t" "x \<le> 0 \<longrightarrow> t \<le> 0"
      by blast
    have "formatted_price ''JPY'' (Fin x) = Inr (format_int_grouped t)"
      using t(1) by (simp add: formatted_price_def)
    with t remove_commas_format_int [of t] show ?thesis by blast
  qed
  have b: "formatted_price ''JPY'' (float_of_rat (150009 / 10)) = Inr ''15,000''"
    by (simp add: float_15000_9 formatted_price_def format_15000)
  have c: "round_half_even (8246831988552499 / 549755813888) = 15001"
    by (simp add: round_half_even_def Let_def)
  show ?thesis
    using a float_15000_9 b c by blast
qed

theorem formatted_price_jpy_truncates_witness:
  "(0::rat) \<le> 3 / 2 \<and> formatted_price ''JPY'' (Fin (3 / 2)) = Inr ''1''
   \<and> (- (3 / 2) :: rat) \<le> 0 \<and> formatted_price ''JPY'' (Fin (- (3 / 2))) = Inr ''-1''"
proof -
  from formatted_price_jpy_truncates obtain t where
    t: "py_int (Fin (3 / 2)) = Inr t" "0 \<le> (3 / 2 :: rat) \<longrightarrow> 0 \<le> t"
      "formatted_price ''JPY'' (Fin (3 / 2)) = Inr (format_int_grouped t)"
    by blast
  from formatted_price_jpy_truncates obtain u where
    u: "py_int (Fin (- (3 / 2))) = Inr u" "(- (3 / 2) :: rat) \<le> 0 \<longrightarrow> u \<le> 0"
      "formatted_price ''JPY'' (Fin (- (3 / 2))) = Inr (format_int_grouped u)"
    by blast
  have "t = 1" using t(1) by simp
  moreover have "u = - 1" using u(1) by simp
  moreover have "format_int_grouped 1 = ''1''" "format_int_grouped (- 1) = ''-1''"
    by (simp_all add: format_int_grouped_def dec_digits.simps digit_char_def group_thousands.simps)
  ultimately show ?thesis using t(3) u(3) by simp
qed

section \<open>Properties of the record assembly\<close>

lemma to_numeric_coerce: "to_numeric parse ErrorsCoerce v = Inr (coerced parse v)"
  by (cases v) (auto simp: coerced_def split: option.splits sum.splits)

lemma coerced_not_str: "coerced parse v \<noteq> PStr s"
  by (cases v) (auto simp: coerced_def split: option.splits sum.splits)

lemma coerced_number: "(\<And>s. v \<noteq> PStr s) \<Longrightarrow> coerced parse v = v"
  by (cases v) (auto simp: coerced_def)

lemma coerced_idem: "coerced parse (coerced parse v) = coerced parse v"
  by (rule coerced_number) (rule coerced_not_str)

lemma assemble_step_eq:
  "assemble_step parse collected st col =
     Inr \<lparr>input_df_data_final =
            AList.update col (assembled_value parse collected col) (input_df_data_final st),
          st_warnings =
            st_warnings st @ (if map_of collected col = None then [not_collected_warning col] else [])\<rparr>"
  by (cases st) (simp add: assemble_step_def assembled_value_def to_numeric_coerce split: option.splits)

lemma assemble_loop_eq:
  "assemble_loop parse collected st cols =
     Inr \<lparr>input_df_data_final =
            foldl (\<lambda>d c. AList.update c (assembled_value parse collected c) d)
              (input_df_data_final st) cols,
          st_warnings =
            st_warnings st
              @ map not_collected_warning (filter (\<lambda>c. map_of collected c = None) cols)\<rparr>"
proof (induction cols arbitrary: st)
  case Nil
  then show ?case by simp
next
  case (Cons c cols)
  show ?case
    by (simp add: assemble_step_eq Cons.IH)
qed

lemma keys_update:
  "map fst (AList.update k v d) = (if k \<in> set (map fst d) then map fst d else map fst d @ [k])"
  by (induction d) auto

lemma keys_foldl_update:
  "map fst (foldl (\<lambda>d c. AList.update c (f c) d) [] cols) = rev (remdups (rev cols))"
proof (induction cols rule: rev_induct)
  case Nil
  then show ?case by simp
next
  case (snoc c cols)
  then show ?case by (simp add: keys_update)
qed

lemma map_of_foldl_update:
  "map_of (foldl (\<lambda>d c. AList.update c (f c) d) d0 cols) col =
     (if col \<in> set cols then Some (f col) else map_of d0 col)"
  by (induction cols arbitrary: d0) (auto simp: update_conv')

lemma DataFrame_eq:
  "(\<And>c. c \<in> set columns \<Longrightarrow> map_of row c = Some (f c)) \<Longrightarrow>
     DataFrame row columns = map (\<lambda>c. (c, f c)) columns"
  by (simp add: DataFrame_def dict_get_def)

lemma length_column_cells: "length (column_cells df col) = count_list (map fst df) col"
  by (induction df) (auto simp: column_cells_def)

lemma column_cells_single:
  "count_list (map fst df) col = 1 \<Longrightarrow> \<exists>v. column_cells df col = [v]"
  using length_column_cells [of df col] by (cases "column_cells df col") auto

lemma column_cells_member:
  "cv \<in> set df \<Longrightarrow> fst cv = col \<Longrightarrow> snd cv \<in> set (column_cells df col)"
  by (auto simp: column_cells_def)

lemma final_cell_idem:
  "final_cell parse K col (final_cell parse K col v) = final_cell parse K col v"
  by (auto simp: final_cell_def coerced_idem)

lemma coerce_column_eq:
  "coerce_column parse df col =
     map (\<lambda>cv. if fst cv = col then (col, final_cell parse (map fst df) col (snd cv)) else cv) df"
proof (cases "col \<in> set numerical_cols")
  case False
  then show ?thesis
    by (auto simp: coerce_column_def final_cell_def intro!: map_idI [symmetric])
next
  case num: True
  show ?thesis
  proof (cases "count_list (map fst df) col = 1")
    case True
    then obtain v where v: "column_cells df col = [v]"
      using column_cells_single by blast
    have cells: "snd cv = v" if "cv \<in> set df" "fst cv = col" for cv
      using column_cells_member [OF that] v by simp
    show ?thesis
    proof (cases "isna v")
      case True
      with num v \<open>count_list (map fst df) col = 1\<close> cells show ?thesis
        by (auto simp: coerce_column_def final_cell_def intro!: map_idI [symmetric])
    next
      case False
      with num v \<open>count_list (map fst df) col = 1\<close> cells show ?thesis
        by (auto simp: coerce_column_def final_cell_def set_column_def to_numeric_coerce)
    qed
  next
    case False
    then have "\<nexists>v. column_cells df col = [v]"
      using length_column_cells [of df col] by auto
    then have "coerce_column parse df col = set_column df col (PFloat NaN)"
      using num by (auto simp: coerce_column_def split: list.splits)
    with False num show ?thesis
      by (simp add: set_column_def final_cell_def)
  qed
qed



lemma foldl_coerce_column:
  "foldl (coerce_column parse) df cs =
     map (\<lambda>cv. if fst cv \<in> set cs
                then (fst cv, final_cell parse (map fst df) (fst cv) (snd cv)) else cv) df"
proof (induction cs rule: rev_induct)
  case Nil
  then show ?case by simp
next
  case (snoc c cs)
  let ?h = "\<lambda>cv. if fst cv \<in> set cs
      then (fst cv, final_cell parse (map fst df) (fst cv) (snd cv)) else cv"
  have keys: "map fst (map ?h df) = map fst df"
    by (induction df) auto
  have "foldl (coerce_column parse) df (cs @ [c]) = coerce_column parse (map ?h df) c"
    by (simp add: snoc.IH)
  also have "\<dots> = map (\<lambda>cv. if fst cv = c
      then (c, final_cell parse (map fst (map ?h df)) c (snd cv)) else cv) (map ?h df)"
    by (rule coerce_column_eq)
  also have "\<dots> = map (\<lambda>cv. if fst cv = c
      then (c, final_cell parse (map fst df) c (snd cv)) else cv) (map ?h df)"
    by (simp only: keys)
  also have "\<dots> = map (\<lambda>cv. if fst cv \<in> set (cs @ [c])
      then (fst cv, final_cell parse (map fst df) (fst cv) (snd cv)) else cv) df"
    by (auto simp: final_cell_idem)
  finally show ?case .
qed

lemma coerce_numerical_cols_eq:
  "coerce_numerical_cols parse df =
     map (\<lambda>cv. (fst cv, final_cell parse (map fst df) (fst cv) (snd cv))) df"
  unfolding coerce_numerical_cols_def foldl_coerce_column
  by (rule map_cong) auto

lemma assemble_eq:
  "assemble parse schema collected =
     Inr \<lparr>input_df_data_final =
            foldl (\<lambda>d c. AList.update c (assembled_value parse collected c) d) [] schema,
          st_warnings = map not_collected_warning (filter (\<lambda>c. map_of collected c = None) schema)\<rparr>"
  by (simp add: assemble_def assemble_loop_eq)

lemma input_df_eq:
  "input_df parse schema collected =
     Inr (map (\<lambda>c. (c, final_cell parse schema c (assembled_value parse collected c))) schema,
          map not_collected_warning (filter (\<lambda>c. map_of collected c = None) schema))"
proof -
  let ?row = "foldl (\<lambda>d c. AList.update c (assembled_value parse collected c) d) [] schema"
  have df: "DataFrame ?row schema = map (\<lambda>c. (c, assembled_value parse collected c)) schema"
    by (rule DataFrame_eq) (simp add: map_of_foldl_update)
  have keys: "map fst (map (\<lambda>c. (c, assembled_value parse collected c)) schema) = schema"
    by (induction schema) auto
  show ?thesis
    by (simp add: input_df_def assemble_eq df coerce_numerical_cols_eq keys o_def)
qed

lemma not_collected_warning_inj:
  "not_collected_warning a = not_collected_warning b \<Longrightarrow> a = b"
  by (simp add: not_collected_warning_def)

lemma count_list_map_inj:
  "(\<And>a b. f a = f b \<Longrightarrow> a = b) \<Longrightarrow> count_list (map f xs) (f x) = count_list xs x"
  by (induction xs) auto

lemma boolean_flags_numerical: "c \<in> set boolean_flags \<Longrightarrow> c \<in> set numerical_cols"
  by (auto simp: boolean_flags_def numerical_cols_def)

lemma categorical_not_numerical:
  "c \<in> set (map fst categorical_widget_map) \<Longrightarrow> c \<notin> set numerical_cols"
  by (auto simp: categorical_widget_map_def numerical_cols_def)

lemma categorical_not_boolean:
  "c \<in> set (map fst categorical_widget_map) \<Longrightarrow> c \<notin> set boolean_flags"
  by (auto simp: categorical_widget_map_def boolean_flags_def)

text \<open>
  Claim C1. For every schema and every mapping of collected values the assembly loop
  returns a dict (it never raises) whose keys are the column names of the schema, each
  once, in the order of their first occurrence in the schema: no column is omitted,
  duplicated or added, whichever columns were collected. For a schema of pairwise
  distinct names the keys are the schema itself, entry for entry. The frame built from
  the dict, and the frame passed to the preprocessor, have exactly the schema as columns.
\<close>

theorem assemble_keys_are_schema:
  "\<exists>st df ws. assemble parse schema collected = Inr st
     \<and> map fst (input_df_data_final st) = rev (remdups (rev schema))
     \<and> set (map fst (input_df_data_final st)) = set schema
     \<and> distinct (map fst (input_df_data_final st))
     \<and> (distinct schema \<longrightarrow>
          map fst (input_df_data_final st) = schema
          \<and> length (input_df_data_final st) = length schema)
     \<and> map fst (DataFrame (input_df_data_final st) schema) = schema
     \<and> input_df parse schema collected = Inr (df, ws) \<and> map fst df = schema"
proof -
  let ?row = "foldl (\<lambda>d c. AList.update c (assembled_value parse collected c) d) [] schema"
  let ?st = "\<lparr>input_df_data_final = ?row,
      st_warnings = map not_collected_warning (filter (\<lambda>c. map_of collected c = None) schema)\<rparr>"
  let ?df = "map (\<lambda>c. (c, final_cell parse schema c (assembled_value parse collected c))) schema"
  have keys: "map fst ?row = rev (remdups (rev schema))"
    by (rule keys_foldl_update)
  have a: "assemble parse schema collected = Inr ?st"
    by (rule assemble_eq)
  have b: "map fst (input_df_data_final ?st) = rev (remdups (rev schema))"
    using keys by simp
  have c: "set (map fst (input_df_data_final ?st)) = set schema"
    unfolding b by simp
  have d: "distinct (map fst (input_df_data_final ?st))"
    unfolding b by simp
  have e: "map fst (input_df_data_final ?st) = schema \<and> length (input_df_data_final ?st) = length schema"
    if "distinct schema"
  proof -
    have "map fst (input_df_data_final ?st) = schema"
      unfolding b using that by (simp add: distinct_remdups_id)
    then show ?thesis by (metis length_map)
  qed
  have f: "map fst (DataFrame (input_df_data_final ?st) schema) = schema"
    by (simp add: DataFrame_def o_def)
  have g: "input_df parse schema collected = Inr (?df,
      map not_collected_warning (filter (\<lambda>c. map_of collected c = None) schema))"
    by (rule input_df_eq)
  have h: "map fst ?df = schema"
    by (simp add: o_def)
  show ?thesis
  proof (intro exI conjI impI)
    show "assemble parse schema collected = Inr ?st"
      by (rule a)
    show "map fst (input_df_data_final ?st) = rev (remdups (rev schema))"
      by (rule b)
    show "set (map fst (input_df_data_final ?st)) = set schema"
      by (rule c)
    show "distinct (map fst (input_df_data_final ?st))"
      by (rule d)
    show "map fst (input_df_data_final ?st) = schema" if "distinct schema"
      using e [OF that] by (rule conjunct1)
    show "length (input_df_data_final ?st) = length schema" if "distinct schema"
      using e [OF that] by (rule conjunct2)
    show "map fst (DataFrame (input_df_data_final ?st) schema) = schema"
      by (rule f)
    show "input_df parse schema collected = Inr (?df,
        map not_collected_warning (filter (\<lambda>c. map_of collected c = None) schema))"
      by (rule g)
    show "map fst ?df = schema"
      by (rule h)
  qed
qed

theorem assemble_keys_are_schema_witness:
  "distinct [''mileage'', ''body_type'']
   \<and> (\<exists>st. assemble parse_digits [''mileage'', ''body_type'']
              [(''body_type'', PStr ''Sedan''), (''color'', PStr ''RED'')] = Inr st
        \<and> map fst (input_df_data_final st) = [''mileage'', ''body_type'']
        \<and> length (input_df_data_final st) = 2)"
proof -
  have h: "distinct [''mileage'', ''body_type'']"
    by simp
  from assemble_keys_are_schema [of parse_digits "[''mileage'', ''body_type'']"
      "[(''body_type'', PStr ''Sedan''), (''color'', PStr ''RED'')]"]
  obtain st where st: "assemble parse_digits [''mileage'', ''body_type'']
        [(''body_type'', PStr ''Sedan''), (''color'', PStr ''RED'')] = Inr st"
    "distinct [''mileage'', ''body_type''] \<longrightarrow>
       map fst (input_df_data_final st) = [''mileage'', ''body_type'']
       \<and> length (input_df_data_final st) = length [''mileage'', ''body_type'']"
    by (elim exE conjE) (rule that; assumption)
  with h show ?thesis
    by auto
qed



lemma coerced_unparsed: "parse s = None \<Longrightarrow> coerced parse (PStr s) = PFloat NaN"
  by (simp add: coerced_def)

lemma count_list_filter:
  "count_list (filter P xs) x = (if P x then count_list xs x else 0)"
  by (induction xs) auto

lemma absent_cell:
  assumes unknown: "parse ''Unknown'' = None"
  shows "final_cell parse schema col (if is_numeric_col col then PFloat NaN else PStr ''Unknown'')
     = (if col \<in> set (map fst categorical_widget_map) then PStr ''Unknown'' else PFloat NaN)"
proof (cases "col \<in> set (map fst categorical_widget_map)")
  case True
  then have "\<not> is_numeric_col col" by (simp add: is_numeric_col_def)
  with True categorical_not_numerical [OF True] show ?thesis
    by (simp add: final_cell_def)
next
  case cat: False
  show ?thesis
  proof (cases "col \<in> set boolean_flags")
    case True
    then have "\<not> is_numeric_col col" by (simp add: is_numeric_col_def)
    with cat boolean_flags_numerical [OF True] unknown show ?thesis
      by (simp add: final_cell_def coerced_unparsed)
  next
    case False
    with cat have "is_numeric_col col" by (simp add: is_numeric_col_def)
    with cat show ?thesis
      by (simp add: final_cell_def)
  qed
qed

text \<open>
  As stated, claim C2 fails for a boolean flag: with schema \<^verbatim>\<open>["fleet"]\<close> and nothing
  collected the loop stores \<^verbatim>\<open>'Unknown'\<close> in the dict, and the coercion of the columns in
  \<^verbatim>\<open>numerical_cols\<close>, which lists every boolean flag, turns it into NaN before the frame
  reaches the preprocessor.
\<close>

theorem absent_boolean_flag_counterexample:
  "''fleet'' \<in> set boolean_flags
   \<and> assemble parse_digits [''fleet''] []
       = Inr \<lparr>input_df_data_final = [(''fleet'', PStr ''Unknown'')],
              st_warnings = [not_collected_warning ''fleet'']\<rparr>
   \<and> input_df parse_digits [''fleet''] []
       = Inr ([(''fleet'', PFloat NaN)], [not_collected_warning ''fleet''])"
proof -
  have b: "''fleet'' \<in> set boolean_flags"
    by (simp add: boolean_flags_def)
  then have n: "\<not> is_numeric_col ''fleet''"
    by (simp add: is_numeric_col_def)
  have u: "parse_digits ''Unknown'' = None"
    by (simp add: parse_digits_def is_digit_def)
  have c: "''fleet'' \<notin> set (map fst categorical_widget_map)"
    using categorical_not_boolean b by blast
  have a: "assembled_value parse_digits [] ''fleet'' = PStr ''Unknown''"
    using n by (simp add: assembled_value_def)
  have f: "final_cell parse_digits [''fleet''] ''fleet'' (PStr ''Unknown'') = PFloat NaN"
    using absent_cell [where parse = parse_digits and schema = "[''fleet'']" and col = "''fleet''", OF u]
      n c by simp
  show ?thesis
    using b a f by (simp add: assemble_eq input_df_eq)
qed

text \<open>
  Claim C2, amended. For every schema column absent from the collected values the loop
  stores \<^verbatim>\<open>'Unknown'\<close> in the dict if the column is categorical or a boolean flag and NaN
  if it is numeric; in the frame passed to the preprocessor every cell of the column
  holds \<^verbatim>\<open>'Unknown'\<close> if the column is categorical and NaN if it is numeric or a boolean
  flag (pandas reads no number out of the string \<^verbatim>\<open>Unknown\<close>). One warning is shown for
  each occurrence of the column in the schema, so exactly one when the names of the schema
  are pairwise distinct. For the schema \<^verbatim>\<open>["mileage", "horsepower", "body_type"]\<close> with
  mileage 50000 and horsepower 200 collected the frame is mileage 50000, horsepower 200,
  body_type \<^verbatim>\<open>'Unknown'\<close>, with one warning, for body_type.
\<close>

theorem absent_column_sentinels:
  "(parse ''Unknown'' = None \<longrightarrow> col \<in> set schema \<longrightarrow> map_of collected col = None \<longrightarrow>
      (\<exists>st df ws. assemble parse schema collected = Inr st
         \<and> input_df parse schema collected = Inr (df, ws)
         \<and> map_of (input_df_data_final st) col
             = Some (if is_numeric_col col then PFloat NaN else PStr ''Unknown'')
         \<and> col \<in> set (map fst df)
         \<and> (\<forall>v. (col, v) \<in> set df \<longrightarrow>
               v = (if col \<in> set (map fst categorical_widget_map) then PStr ''Unknown''
                    else PFloat NaN))
         \<and> ws = map not_collected_warning (filter (\<lambda>c. map_of collected c = None) schema)
         \<and> count_list ws (not_collected_warning col) = count_list schema col
         \<and> (distinct schema \<longrightarrow> count_list ws (not_collected_warning col) = 1)))
   \<and> input_df parse [''mileage'', ''horsepower'', ''body_type'']
        [(''mileage'', PInt 50000), (''horsepower'', PInt 200)]
       = Inr ([(''mileage'', PInt 50000), (''horsepower'', PInt 200),
               (''body_type'', PStr ''Unknown'')],
              [not_collected_warning ''body_type''])"
proof -
  let ?row = "foldl (\<lambda>d c. AList.update c (assembled_value parse collected c) d) [] schema"
  let ?ws = "map not_collected_warning (filter (\<lambda>c. map_of collected c = None) schema)"
  let ?st = "\<lparr>input_df_data_final = ?row, st_warnings = ?ws\<rparr>"
  let ?df = "map (\<lambda>c. (c, final_cell parse schema c (assembled_value parse collected c))) schema"
  let ?sentinel = "if is_numeric_col col then PFloat NaN else PStr ''Unknown''"
  let ?final = "if col \<in> set (map fst categorical_widget_map) then PStr ''Unknown'' else PFloat NaN"
  have main: "\<exists>st df ws. assemble parse schema collected = Inr st
         \<and> input_df parse schema collected = Inr (df, ws)
         \<and> map_of (input_df_data_final st) col = Some ?sentinel
         \<and> col \<in> set (map fst df)
         \<and> (\<forall>v. (col, v) \<in> set df \<longrightarrow> v = ?final)
         \<and> ws = ?ws
         \<and> count_list ws (not_collected_warning col) = count_list schema col
         \<and> (distinct schema \<longrightarrow> count_list ws (not_collected_warning col) = 1)"
    if unknown: "parse ''Unknown'' = None" and col: "col \<in> set schema"
      and absent: "map_of collected col = None"
  proof -
    have av: "assembled_value parse collected col = ?sentinel"
      using absent by (simp add: assembled_value_def)
    have m: "map_of ?row col = Some ?sentinel"
      using col av by (simp add: map_of_foldl_update)
    have k: "col \<in> set (map fst ?df)"
      using col by (simp add: o_def)
    have cells: "v = ?final" if "(col, v) \<in> set ?df" for v
    proof -
      from that have "v = final_cell parse schema col (assembled_value parse collected col)"
        by auto
      then show ?thesis
        unfolding av
        using absent_cell [where parse = parse and schema = schema and col = col, OF unknown]
        by simp
    qed
    have cnt: "count_list ?ws (not_collected_warning col) = count_list schema col"
      using absent
      by (simp add: count_list_map_inj [OF not_collected_warning_inj] count_list_filter)
    have one: "count_list ?ws (not_collected_warning col) = 1" if "distinct schema"
      unfolding cnt using that col by (rule count_list_distinct)
    show ?thesis
    proof (intro exI conjI impI allI)
      show "assemble parse schema collected = Inr ?st"
        by (rule assemble_eq)
      show "input_df parse schema collected = Inr (?df, ?ws)"
        by (rule input_df_eq)
      show "map_of (input_df_data_final ?st) col = Some ?sentinel"
        using m by simp
      show "col \<in> set (map fst ?df)"
        by (rule k)
      show "v = ?final" if "(col, v) \<in> set ?df" for v
        using that by (rule cells)
      show "?ws = ?ws"
        by (rule refl)
      show "count_list ?ws (not_collected_warning col) = count_list schema col"
        by (rule cnt)
      show "count_list ?ws (not_collected_warning col) = 1" if "distinct schema"
        using that by (rule one)
    qed
  qed
  have example: "input_df parse [''mileage'', ''horsepower'', ''body_type'']
        [(''mileage'', PInt 50000), (''horsepower'', PInt 200)]
       = Inr ([(''mileage'', PInt 50000), (''horsepower'', PInt 200),
               (''body_type'', PStr ''Unknown'')],
              [not_collected_warning ''body_type''])"
  proof -
    have n1: "is_numeric_col ''mileage''" and n2: "is_numeric_col ''horsepower''"
      and n3: "\<not> is_numeric_col ''body_type''"
      by (simp_all add: is_numeric_col_def categorical_widget_map_def boolean_flags_def)
    have c1: "''mileage'' \<in> set numerical_cols" and c2: "''horsepower'' \<in> set numerical_cols"
      and c3: "''body_type'' \<notin> set numerical_cols"
      by (simp_all add: numerical_cols_def)
    show ?thesis
      using n1 n2 n3 c1 c2 c3
      by (simp add: input_df_eq assembled_value_def final_cell_def coerced_def)
  qed
  show ?thesis
  proof (intro conjI impI)
    show "\<exists>st df ws. assemble parse schema collected = Inr st
         \<and> input_df parse schema collected = Inr (df, ws)
         \<and> map_of (input_df_data_final st) col = Some ?sentinel
         \<and> col \<in> set (map fst df)
         \<and> (\<forall>v. (col, v) \<in> set df \<longrightarrow> v = ?final)
         \<and> ws = ?ws
         \<and> count_list ws (not_collected_warning col) = count_list schema col
         \<and> (distinct schema \<longrightarrow> count_list ws (not_collected_warning col) = 1)"
      if "parse ''Unknown'' = None" "col \<in> set schema" "map_of collected col = None"
      using that by (rule main)
    show "input_df parse [''mileage'', ''horsepower'', ''body_type'']
        [(''mileage'', PInt 50000), (''horsepower'', PInt 200)]
       = Inr ([(''mileage'', PInt 50000), (''horsepower'', PInt 200),
               (''body_type'', PStr ''Unknown'')],
              [not_collected_warning ''body_type''])"
      by (rule example)
  qed
qed


theorem absent_column_sentinels_witness:
  "parse_digits ''Unknown'' = None
   \<and> ''fleet'' \<in> set [''fleet'', ''body_type'']
   \<and> map_of [(''body_type'', PStr ''Sedan'')] ''fleet'' = None
   \<and> distinct [''fleet'', ''body_type'']
   \<and> (\<exists>df ws. input_df parse_digits [''fleet'', ''body_type''] [(''body_type'', PStr ''Sedan'')]
          = Inr (df, ws)
        \<and> ''fleet'' \<in> set (map fst df)
        \<and> count_list ws (not_collected_warning ''fleet'') = 1)"
proof -
  have h1: "parse_digits ''Unknown'' = None"
    by (simp add: parse_digits_def is_digit_def)
  have h2: "''fleet'' \<in> set [''fleet'', ''body_type'']"
    by simp
  have h3: "map_of [(''body_type'', PStr ''Sedan'')] ''fleet'' = None"
    by simp
  have h4: "distinct [''fleet'', ''body_type'']"
    by simp
  from absent_column_sentinels [where parse = parse_digits and col = "''fleet''"
      and schema = "[''fleet'', ''body_type'']" and collected = "[(''body_type'', PStr ''Sedan'')]",
      THEN conjunct1, rule_format, OF h1 h2 h3]
  obtain df ws where
    "input_df parse_digits [''fleet'', ''body_type''] [(''body_type'', PStr ''Sedan'')] = Inr (df, ws)"
    "''fleet'' \<in> set (map fst df)"
    "distinct [''fleet'', ''body_type''] \<longrightarrow> count_list ws (not_collected_warning ''fleet'') = 1"
    by (elim exE conjE) (rule that; assumption)
  with h1 h2 h3 h4 show ?thesis
    by blast
qed



text \<open>
  As stated, claim C4 fails in its last part: a collected value that is no number
  degrades to NaN and no warning is shown. With schema \<^verbatim>\<open>["mileage"]\<close> and the string
  \<^verbatim>\<open>abc\<close> collected for it, the dict and the frame hold NaN and the list of warnings is
  empty.
\<close>

theorem coerced_value_no_warning_counterexample:
  "is_numeric_col ''mileage''
   \<and> parse_digits ''abc'' = None
   \<and> assemble parse_digits [''mileage''] [(''mileage'', PStr ''abc'')]
       = Inr \<lparr>input_df_data_final = [(''mileage'', PFloat NaN)], st_warnings = []\<rparr>
   \<and> input_df parse_digits [''mileage''] [(''mileage'', PStr ''abc'')]
       = Inr ([(''mileage'', PFloat NaN)], [])"
proof -
  have n: "is_numeric_col ''mileage''"
    by (simp add: is_numeric_col_def categorical_widget_map_def boolean_flags_def)
  have u: "parse_digits ''abc'' = None"
    by (simp add: parse_digits_def is_digit_def)
  have a: "assembled_value parse_digits [(''mileage'', PStr ''abc'')] ''mileage'' = PFloat NaN"
    using n u by (simp add: assembled_value_def coerced_unparsed)
  have f: "final_cell parse_digits [''mileage''] ''mileage'' (PFloat NaN) = PFloat NaN"
    by (simp add: final_cell_def)
  show ?thesis
    using n u a f by (simp add: assemble_eq input_df_eq)
qed

text \<open>
  Claim C4, amended. For every parser, schema and mapping of collected values the
  assembly loop and the construction of the frame return a result and raise nothing. For
  a numeric column (neither categorical nor a boolean flag) of the schema whose collected
  value is a string that is no number, the dict holds NaN for the column and so does
  every cell of the column in the frame, with no warning. An absent column gets its
  sentinel, \<^verbatim>\<open>'Unknown'\<close> or NaN, in the dict, with a warning: the warnings shown are
  exactly those of the absent columns. The coercion matters: under \<^verbatim>\<open>errors='raise'\<close> the
  same string makes \<^verbatim>\<open>pd.to_numeric\<close> raise \<^verbatim>\<open>ValueError\<close>.
\<close>

theorem assemble_never_raises:
  "(\<exists>st df ws. assemble parse schema collected = Inr st
      \<and> input_df parse schema collected = Inr (df, ws)
      \<and> (\<forall>col s. col \<in> set schema \<longrightarrow> is_numeric_col col \<longrightarrow>
            map_of collected col = Some (PStr s) \<longrightarrow> parse s = None \<longrightarrow>
              map_of (input_df_data_final st) col = Some (PFloat NaN)
              \<and> col \<in> set (map fst df)
              \<and> (\<forall>v. (col, v) \<in> set df \<longrightarrow> v = PFloat NaN))
      \<and> (\<forall>col. col \<in> set schema \<longrightarrow> map_of collected col = None \<longrightarrow>
            map_of (input_df_data_final st) col
              = Some (if is_numeric_col col then PFloat NaN else PStr ''Unknown''))
      \<and> st_warnings st
          = map not_collected_warning (filter (\<lambda>c. map_of collected c = None) schema)
      \<and> ws = st_warnings st)
   \<and> (\<forall>s. parse s = None \<longrightarrow>
         to_numeric parse ErrorsCoerce (PStr s) = Inr (PFloat NaN)
         \<and> to_numeric parse ErrorsRaise (PStr s) = Inl ValueError)"
proof -
  let ?row = "foldl (\<lambda>d c. AList.update c (assembled_value parse collected c) d) [] schema"
  let ?ws = "map not_collected_warning (filter (\<lambda>c. map_of collected c = None) schema)"
  let ?st = "\<lparr>input_df_data_final = ?row, st_warnings = ?ws\<rparr>"
  let ?df = "map (\<lambda>c. (c, final_cell parse schema c (assembled_value parse collected c))) schema"
  have v: "assembled_value parse collected col = PFloat NaN"
    if "is_numeric_col col" "map_of collected col = Some (PStr s)" "parse s = None" for col s
    using that by (simp add: assembled_value_def coerced_unparsed)
  have f: "final_cell parse schema col (PFloat NaN) = PFloat NaN" for col
    by (simp add: final_cell_def)
  have cells: "w = PFloat NaN"
    if "is_numeric_col col" "map_of collected col = Some (PStr s)" "parse s = None"
      "(col, w) \<in> set ?df" for col s w
  proof -
    from that(4) have "w = final_cell parse schema col (assembled_value parse collected col)"
      by auto
    then show ?thesis
      unfolding v [OF that(1,2,3)] f .
  qed
  have first: "\<exists>st df ws. assemble parse schema collected = Inr st
      \<and> input_df parse schema collected = Inr (df, ws)
      \<and> (\<forall>col s. col \<in> set schema \<longrightarrow> is_numeric_col col \<longrightarrow>
            map_of collected col = Some (PStr s) \<longrightarrow> parse s = None \<longrightarrow>
              map_of (input_df_data_final st) col = Some (PFloat NaN)
              \<and> col \<in> set (map fst df)
              \<and> (\<forall>v. (col, v) \<in> set df \<longrightarrow> v = PFloat NaN))
      \<and> (\<forall>col. col \<in> set schema \<longrightarrow> map_of collected col = None \<longrightarrow>
            map_of (input_df_data_final st) col
              = Some (if is_numeric_col col then PFloat NaN else PStr ''Unknown''))
      \<and> st_warnings st = ?ws
      \<and> ws = st_warnings st"
  proof (intro exI conjI impI allI)
    show "assemble parse schema collected = Inr ?st"
      by (rule assemble_eq)
    show "input_df parse schema collected = Inr (?df, ?ws)"
      by (rule input_df_eq)
    show "map_of (input_df_data_final ?st) col = Some (PFloat NaN)"
      if "col \<in> set schema" "is_numeric_col col" "map_of collected col = Some (PStr s)"
        "parse s = None" for col s
      using that(1) v [OF that(2,3,4)] by (simp add: map_of_foldl_update)
    show "col \<in> set (map fst ?df)"
      if "col \<in> set schema" "is_numeric_col col" "map_of collected col = Some (PStr s)"
        "parse s = None" for col s
      using that(1) by (simp add: o_def)
    show "w = PFloat NaN"
      if "col \<in> set schema" "is_numeric_col col" "map_of collected col = Some (PStr s)"
        "parse s = None" "(col, w) \<in> set ?df" for col s w
      using that(2,3,4,5) by (rule cells)
    show "map_of (input_df_data_final ?st) col
        = Some (if is_numeric_col col then PFloat NaN else PStr ''Unknown'')"
      if "col \<in> set schema" "map_of collected col = None" for col
      using that by (simp add: map_of_foldl_update assembled_value_def)
    show "st_warnings ?st = ?ws"
      by simp
    show "?ws = st_warnings ?st"
      by simp
  qed
  have second: "\<forall>s. parse s = None \<longrightarrow>
         to_numeric parse ErrorsCoerce (PStr s) = Inr (PFloat NaN)
         \<and> to_numeric parse ErrorsRaise (PStr s) = Inl ValueError"
    by simp
  from first second show ?thesis
    by (rule conjI)
qed

theorem assemble_never_raises_witness:
  "''mileage'' \<in> set [''mileage'', ''body_type'']
   \<and> is_numeric_col ''mileage''
   \<and> map_of [(''mileage'', PStr ''abc'')] ''mileage'' = Some (PStr ''abc'')
   \<and> parse_digits ''abc'' = None
   \<and> map_of [(''mileage'', PStr ''abc'')] ''body_type'' = None
   \<and> (\<exists>st df ws. assemble parse_digits [''mileage'', ''body_type''] [(''mileage'', PStr ''abc'')]
          = Inr st
        \<and> input_df parse_digits [''mileage'', ''body_type''] [(''mileage'', PStr ''abc'')]
          = Inr (df, ws)
        \<and> map_of (input_df_data_final st) ''mileage'' = Some (PFloat NaN)
        \<and> ''mileage'' \<in> set (map fst df)
        \<and> ws = [not_collected_warning ''body_type''])
   \<and> to_numeric parse_digits ErrorsRaise (PStr ''abc'') = Inl ValueError"
proof -
  let ?schema = "[''mileage'', ''body_type'']"
  let ?coll = "[(''mileage'', PStr ''abc'')]"
  have h1: "''mileage'' \<in> set ?schema"
    by simp
  have h2: "is_numeric_col ''mileage''"
    by (simp add: is_numeric_col_def categorical_widget_map_def boolean_flags_def)
  have h3: "map_of ?coll ''mileage'' = Some (PStr ''abc'')"
    by simp
  have h4: "parse_digits ''abc'' = None"
    by (simp add: parse_digits_def is_digit_def)
  have h5: "map_of ?coll ''body_type'' = None"
    by simp
  from assemble_never_raises [where parse = parse_digits and schema = ?schema
      and collected = ?coll, THEN conjunct1]
  obtain st df ws where
    a: "assemble parse_digits ?schema ?coll = Inr st"
    and b: "input_df parse_digits ?schema ?coll = Inr (df, ws)"
    and c: "\<forall>col s. col \<in> set ?schema \<longrightarrow> is_numeric_col col \<longrightarrow>
            map_of ?coll col = Some (PStr s) \<longrightarrow> parse_digits s = None \<longrightarrow>
              map_of (input_df_data_final st) col = Some (PFloat NaN)
              \<and> col \<in> set (map fst df)
              \<and> (\<forall>v. (col, v) \<in> set df \<longrightarrow> v = PFloat NaN)"
    and w: "st_warnings st
          = map not_collected_warning (filter (\<lambda>c. map_of ?coll c = None) ?schema)"
      "ws = st_warnings st"
    by (elim exE conjE) (rule that; assumption)
  from c [rule_format, OF h1 h2 h3 h4]
  have d: "map_of (input_df_data_final st) ''mileage'' = Some (PFloat NaN)"
    "''mileage'' \<in> set (map fst df)"
    by simp_all
  have e: "ws = [not_collected_warning ''body_type'']"
    using w by simp
  from assemble_never_raises [where parse = parse_digits and schema = ?schema
      and collected = ?coll, THEN conjunct2, rule_format, OF h4]
  have f: "to_numeric parse_digits ErrorsRaise (PStr ''abc'') = Inl ValueError"
    by (rule conjunct2)
  from h1 h2 h3 h4 h5 a b d e f show ?thesis
    by blast
qed

section \<open>Properties of the page\<close>

lemma widget_valid: "valid_inputs (widget cols col v checks pg) \<Longrightarrow> valid_inputs pg"
  by (simp add: widget_def split: if_splits)

lemma widget_messages: "m \<in> set (messages pg) \<Longrightarrow> m \<in> set (messages (widget cols col v checks pg))"
  by (simp add: widget_def)

lemma widget_no_checks_valid:
  "valid_inputs (widget cols col v no_checks pg) = valid_inputs pg"
  by (simp add: widget_def no_checks_def)

lemma widget_no_checks_messages:
  "messages (widget cols col v no_checks pg) = messages pg"
  by (simp add: widget_def no_checks_def)

lemma fold_widget_valid:
  "valid_inputs (fold (\<lambda>col. widget cols col (f col) no_checks) names pg) = valid_inputs pg"
  by (induction names arbitrary: pg) (simp_all add: widget_no_checks_valid)

lemma fold_widget_messages:
  "messages (fold (\<lambda>col. widget cols col (f col) no_checks) names pg) = messages pg"
  by (induction names arbitrary: pg) (simp_all add: widget_no_checks_messages)

lemma column2_valid: "valid_inputs (column2 cols w pg) = valid_inputs pg"
  by (simp add: column2_def Let_def fold_widget_valid widget_no_checks_valid)

lemma column2_messages: "messages (column2 cols w pg) = messages pg"
  by (simp add: column2_def Let_def fold_widget_messages widget_no_checks_messages)

lemma column3_valid: "valid_inputs (column3 cols w pg) = valid_inputs pg"
  by (simp add: column3_def Let_def fold_widget_valid widget_no_checks_valid)

lemma column3_messages: "messages (column3 cols w pg) = messages pg"
  by (simp add: column3_def Let_def fold_widget_messages widget_no_checks_messages)

lemma widget_valid_eq:
  "valid_inputs (widget cols col v checks pg) =
     (valid_inputs pg \<and> (col \<in> set cols \<longrightarrow> snd checks))"
  by (simp add: widget_def)

lemma widget_messages_eq:
  "messages (widget cols col v checks pg) =
     messages pg @ (if col \<in> set cols then fst checks else [])"
  by (simp add: widget_def)

lemma column1_valid:
  "valid_inputs (column1 cols w pg) =
     (valid_inputs pg
      \<and> (''mileage'' \<in> set cols \<longrightarrow> snd (mileage_checks (mileage w)))
      \<and> (''car_age'' \<in> set cols \<longrightarrow> snd (car_age_checks (car_age w)))
      \<and> (''horsepower'' \<in> set cols \<longrightarrow> snd (horsepower_checks (horsepower w)))
      \<and> (''engine_displacement'' \<in> set cols \<longrightarrow>
            snd (engine_displacement_checks (engine_displacement w)))
      \<and> (''fuel_tank_volume'' \<in> set cols \<longrightarrow> snd (fuel_tank_volume_checks (fuel_tank_volume w)))
      \<and> (''city_fuel_economy'' \<in> set cols \<longrightarrow>
            snd (city_fuel_economy_checks (city_fuel_economy w)))
      \<and> (''highway_fuel_economy'' \<in> set cols \<longrightarrow>
            snd (highway_fuel_economy_checks (highway_fuel_economy w)))
      \<and> (''daysonmarket'' \<in> set cols \<longrightarrow> snd (daysonmarket_checks (daysonmarket w)))
      \<and> (''owner_count'' \<in> set cols \<longrightarrow> snd (owner_count_checks (owner_count w)))
      \<and> (''savings_amount'' \<in> set cols \<longrightarrow> snd (savings_amount_checks (savings_amount w)))
      \<and> (''seller_rating'' \<in> set cols \<longrightarrow> snd (seller_rating_checks (seller_rating w))))"
  unfolding column1_def Let_def widget_valid_eq by (simp only: conj_assoc)

lemma column1_messages:
  "messages (column1 cols w pg) =
     messages pg
     @ (if ''mileage'' \<in> set cols then fst (mileage_checks (mileage w)) else [])
     @ (if ''car_age'' \<in> set cols then fst (car_age_checks (car_age w)) else [])
     @ (if ''horsepower'' \<in> set cols then fst (horsepower_checks (horsepower w)) else [])
     @ (if ''engine_displacement'' \<in> set cols
        then fst (engine_displacement_checks (engine_displacement w)) else [])
     @ (if ''fuel_tank_volume'' \<in> set cols
        then fst (fuel_tank_volume_checks (fuel_tank_volume w)) else [])
     @ (if ''city_fuel_economy'' \<in> set cols
        then fst (city_fuel_economy_checks (city_fuel_economy w)) else [])
     @ (if ''highway_fuel_economy'' \<in> set cols
        then fst (highway_fuel_economy_checks (highway_fuel_economy w)) else [])
     @ (if ''daysonmarket'' \<in> set cols then fst (daysonmarket_checks (daysonmarket w)) else [])
     @ (if ''owner_count'' \<in> set cols then fst (owner_count_checks (owner_count w)) else [])
     @ (if ''savings_amount'' \<in> set cols
        then fst (savings_amount_checks (savings_amount w)) else [])
     @ (if ''seller_rating'' \<in> set cols then fst (seller_rating_checks (seller_rating w)) else [])"
  unfolding column1_def Let_def widget_messages_eq by (simp only: append_assoc)

lemma render_inputs_valid:
  "valid_inputs (render_inputs cols w) =
     valid_inputs (column1 cols w \<lparr>valid_inputs = True, messages = [], input_values_from_widgets = []\<rparr>)"
  by (simp add: render_inputs_def column2_valid column3_valid)

lemma render_inputs_messages:
  "messages (render_inputs cols w) =
     messages (column1 cols w \<lparr>valid_inputs = True, messages = [], input_values_from_widgets = []\<rparr>)"
  by (simp add: render_inputs_def column2_messages column3_messages)

lemma run_page_blocked:
  "\<not> valid_inputs (render_inputs cols w) \<Longrightarrow>
     snd (run_page parse predict_usd outcome selected_currency cols w clicked) = NotAttempted"
  by (simp add: run_page_def Let_def st_button_def)

lemma run_page_enabled:
  "valid_inputs (render_inputs cols w) \<Longrightarrow>
     snd (run_page parse predict_usd outcome selected_currency cols w True)
       = Attempted (predict_action parse predict_usd outcome selected_currency cols
           (input_values_from_widgets (render_inputs cols w)))"
  by (simp add: run_page_def Let_def st_button_def)

lemma float_0_1: "float_of_rat (1 / 10) = Fin (3602879701896397 / 36028797018963968)"
  by (simp add: float_eval round_double_at [where k = "- 4"])

lemma default_inputs_valid: "valid_inputs (render_inputs cols (default_inputs\<lparr>horsepower := 700\<rparr>))"
  by (simp add: render_inputs_valid column1_valid default_inputs_def
      mileage_checks_def car_age_checks_def horsepower_checks_def engine_displacement_checks_def
      fuel_tank_volume_checks_def city_fuel_economy_checks_def highway_fuel_economy_checks_def
      daysonmarket_checks_def owner_count_checks_def savings_amount_checks_def
      seller_rating_checks_def no_checks_def float_less_def float_0_1)


lemma horsepower_checks_700:
  "horsepower_checks 700
     = ([StWarning ''High horsepower: This is above typical values for most cars.''], True)"
  by (simp add: horsepower_checks_def)

lemma horsepower_checks_5:
  "horsepower_checks 5 = ([StError ''Horsepower must be between 10 and 1200.''], False)"
  by (simp add: horsepower_checks_def)

lemma horsepower_checks_ok: "snd (horsepower_checks hp) \<longleftrightarrow> 10 \<le> hp \<and> hp \<le> 1200"
  by (auto simp: horsepower_checks_def no_checks_def)

lemma render_inputs_horsepower_message:
  "''horsepower'' \<in> set cols \<Longrightarrow> m \<in> set (fst (horsepower_checks (horsepower w))) \<Longrightarrow>
     m \<in> set (messages (render_inputs cols w))"
  by (simp add: render_inputs_messages column1_messages)

lemma render_inputs_horsepower_invalid:
  "''horsepower'' \<in> set cols \<Longrightarrow> \<not> snd (horsepower_checks (horsepower w)) \<Longrightarrow>
     \<not> valid_inputs (render_inputs cols w)"
  by (simp add: render_inputs_valid column1_valid)

lemma render_inputs_horsepower_irrelevant:
  "snd (horsepower_checks (horsepower w)) \<Longrightarrow> snd (horsepower_checks hp) \<Longrightarrow>
     valid_inputs (render_inputs cols (w\<lparr>horsepower := hp\<rparr>)) = valid_inputs (render_inputs cols w)"
  by (simp add: render_inputs_valid column1_valid)

lemma run_page_message:
  "\<not> valid_inputs (render_inputs cols w) \<Longrightarrow>
     StError ''Please correct the highlighted input errors before predicting.''
       \<in> set (messages (fst (run_page parse predict_usd outcome selected_currency cols w clicked)))"
  by (simp add: run_page_def Let_def)

text \<open>
  Claim C9. At 700 the checks of the horsepower input show the high-value warning and
  leave \<^verbatim>\<open>valid_inputs\<close> as it is: the page is as valid as with the default 200, and with
  the other widgets at their defaults the Predict button is enabled and a click runs the
  prediction. At 5, outside the range 10 to 1200, they show the error and set
  \<^verbatim>\<open>valid_inputs\<close> to false: the page shows the request to correct the inputs, the button
  is disabled, and no prediction is attempted whether or not Predict is clicked. The
  checks of the horsepower input pass exactly on the range 10 to 1200, and whenever any
  check of the page has failed no prediction is attempted.
\<close>

theorem horsepower_validation_gates_predict:
  "horsepower_checks 700
     = ([StWarning ''High horsepower: This is above typical values for most cars.''], True)
   \<and> horsepower_checks 5 = ([StError ''Horsepower must be between 10 and 1200.''], False)
   \<and> (\<forall>hp. snd (horsepower_checks hp) \<longleftrightarrow> 10 \<le> hp \<and> hp \<le> 1200)
   \<and> (''horsepower'' \<in> set cols \<longrightarrow> horsepower w = 700 \<longrightarrow>
        StWarning ''High horsepower: This is above typical values for most cars.''
          \<in> set (messages (render_inputs cols w))
        \<and> valid_inputs (render_inputs cols w)
            = valid_inputs (render_inputs cols (w\<lparr>horsepower := 200\<rparr>)))
   \<and> valid_inputs (render_inputs cols (default_inputs\<lparr>horsepower := 700\<rparr>))
   \<and> snd (run_page parse predict_usd outcome selected_currency cols
          (default_inputs\<lparr>horsepower := 700\<rparr>) True)
       = Attempted (predict_action parse predict_usd outcome selected_currency cols
           (input_values_from_widgets (render_inputs cols (default_inputs\<lparr>horsepower := 700\<rparr>))))
   \<and> (''horsepower'' \<in> set cols \<longrightarrow> horsepower w = 5 \<longrightarrow>
        StError ''Horsepower must be between 10 and 1200.'' \<in> set (messages (render_inputs cols w))
        \<and> \<not> valid_inputs (render_inputs cols w)
        \<and> StError ''Please correct the highlighted input errors before predicting.''
            \<in> set (messages (fst (run_page parse predict_usd outcome selected_currency cols w clicked)))
        \<and> snd (run_page parse predict_usd outcome selected_currency cols w clicked) = NotAttempted)
   \<and> (\<not> valid_inputs (render_inputs cols w) \<longrightarrow>
        snd (run_page parse predict_usd outcome selected_currency cols w clicked) = NotAttempted)"
proof (intro conjI impI allI)
  show "horsepower_checks 700
     = ([StWarning ''High horsepower: This is above typical values for most cars.''], True)"
    by (rule horsepower_checks_700)
  show "horsepower_checks 5 = ([StError ''Horsepower must be between 10 and 1200.''], False)"
    by (rule horsepower_checks_5)
  show "snd (horsepower_checks hp) \<longleftrightarrow> 10 \<le> hp \<and> hp \<le> 1200" for hp
    by (rule horsepower_checks_ok)
  show "StWarning ''High horsepower: This is above typical values for most cars.''
          \<in> set (messages (render_inputs cols w))"
    if "''horsepower'' \<in> set cols" "horsepower w = 700"
    using that(1) by (rule render_inputs_horsepower_message) (simp add: that(2) horsepower_checks_700)
  show "valid_inputs (render_inputs cols w)
      = valid_inputs (render_inputs cols (w\<lparr>horsepower := 200\<rparr>))"
    if "''horsepower'' \<in> set cols" "horsepower w = 700"
    by (rule render_inputs_horsepower_irrelevant [symmetric])
       (simp_all add: that(2) horsepower_checks_ok)
  show "valid_inputs (render_inputs cols (default_inputs\<lparr>horsepower := 700\<rparr>))"
    by (rule default_inputs_valid)
  show "snd (run_page parse predict_usd outcome selected_currency cols
          (default_inputs\<lparr>horsepower := 700\<rparr>) True)
       = Attempted (predict_action parse predict_usd outcome selected_currency cols
           (input_values_from_widgets (render_inputs cols (default_inputs\<lparr>horsepower := 700\<rparr>))))"
    by (rule run_page_enabled [OF default_inputs_valid])
  show "StError ''Horsepower must be between 10 and 1200.'' \<in> set (messages (render_inputs cols w))"
    if "''horsepower'' \<in> set cols" "horsepower w = 5"
    using that(1) by (rule render_inputs_horsepower_message) (simp add: that(2) horsepower_checks_5)
  show "\<not> valid_inputs (render_inputs cols w)"
    if "''horsepower'' \<in> set cols" "horsepower w = 5"
    using that(1) by (rule render_inputs_horsepower_invalid) (simp add: that(2) horsepower_checks_5)
  show "StError ''Please correct the highlighted input errors before predicting.''
      \<in> set (messages (fst (run_page parse predict_usd outcome selected_currency cols w clicked)))"
    if "''horsepower'' \<in> set cols" "horsepower w = 5"
    by (rule run_page_message, rule render_inputs_horsepower_invalid [OF that(1)])
       (simp add: that(2) horsepower_checks_5)
  show "snd (run_page parse predict_usd outcome selected_currency cols w clicked) = NotAttempted"
    if "''horsepower'' \<in> set cols" "horsepower w = 5"
    by (rule run_page_blocked, rule render_inputs_horsepower_invalid [OF that(1)])
       (simp add: that(2) horsepower_checks_5)
  show "snd (run_page parse predict_usd outcome selected_currency cols w clicked) = NotAttempted"
    if "\<not> valid_inputs (render_inputs cols w)"
    using that by (rule run_page_blocked)
qed

theorem horsepower_validation_gates_predict_witness:
  "''horsepower'' \<in> set [''mileage'', ''horsepower'']
   \<and> horsepower (default_inputs\<lparr>horsepower := 5\<rparr>) = 5
   \<and> \<not> valid_inputs (render_inputs [''mileage'', ''horsepower''] (default_inputs\<lparr>horsepower := 5\<rparr>))
   \<and> snd (run_page parse_digits (\<lambda>df. Inr (Fin 100)) NetworkFailure ''USD''
          [''mileage'', ''horsepower''] (default_inputs\<lparr>horsepower := 5\<rparr>) True) = NotAttempted
   \<and> horsepower (default_inputs\<lparr>horsepower := 700\<rparr>) = 700
   \<and> StWarning ''High horsepower: This is above typical values for most cars.''
        \<in> set (messages (render_inputs [''mileage'', ''horsepower'']
             (default_inputs\<lparr>horsepower := 700\<rparr>)))"
proof -
  let ?cols = "[''mileage'', ''horsepower'']"
  have h1: "''horsepower'' \<in> set ?cols"
    by simp
  have h2: "horsepower (default_inputs\<lparr>horsepower := 5\<rparr>) = 5"
    by simp
  have h3: "horsepower (default_inputs\<lparr>horsepower := 700\<rparr>) = 700"
    by simp
  note inst = horsepower_validation_gates_predict [where cols = ?cols and parse = parse_digits
      and predict_usd = "\<lambda>df. Inr (Fin 100)" and outcome = NetworkFailure
      and selected_currency = "''USD''" and clicked = True]
  from inst [where w = "default_inputs\<lparr>horsepower := 5\<rparr>"] h1 h2
  have a: "\<not> valid_inputs (render_inputs ?cols (default_inputs\<lparr>horsepower := 5\<rparr>))"
    and b: "snd (run_page parse_digits (\<lambda>df. Inr (Fin 100)) NetworkFailure ''USD''
          ?cols (default_inputs\<lparr>horsepower := 5\<rparr>) True) = NotAttempted"
    by blast+
  from inst [where w = "default_inputs\<lparr>horsepower := 700\<rparr>"] h1 h3
  have c: "StWarning ''High horsepower: This is above typical values for most cars.''
        \<in> set (messages (render_inputs ?cols (default_inputs\<lparr>horsepower := 700\<rparr>)))"
    by blast
  from h1 h2 a b h3 c show ?thesis
    by (intro conjI)
qed

end
